theory Spec2Isabelle
  imports Complex_Main "HOL-Library.AList"
begin

section \<open>The IKEA supply-chain simulation (ikea_simulation.js)\<close>

text \<open>
  A shallow embedding of the object \<^verbatim>\<open>ikeaSimulation\<close>. A finite JavaScript number is
  a real number; a value that can be \<^verbatim>\<open>NaN\<close> (the result of reading an absent
  property and computing with \<^verbatim>\<open>undefined\<close>, or of \<^verbatim>\<open>Math.sqrt\<close> of a negative
  number) is a \<open>jsnum\<close>. Arithmetic is exact except where the rounding of double
  arithmetic decides what the code does: the product \<^verbatim>\<open>route.capacity * 0.8\<close> of the
  shipment trigger is rounded as IEEE 754 doubles are, and the term \<^verbatim>\<open>a\<close> of
  \<^verbatim>\<open>calculateDistance\<close>, which rounding can push above 1, is taken as the host
  computes it. A JavaScript object used as a dictionary is a map, or an association
  list in insertion order where the source iterates over \<^verbatim>\<open>Object.keys\<close> with a
  body that can throw. A thrown exception is a value: an \<open>outcome\<close> carries the state as
  it was mutated up to the throw.
\<close>

subsection \<open>Numbers that can be NaN\<close>

datatype jsnum = Num real | NaN

text \<open>Reading a property: \<open>None\<close> is \<^verbatim>\<open>undefined\<close>; ToNumber(undefined) is NaN.\<close>

fun toNumber :: "jsnum option \<Rightarrow> jsnum" where
  "toNumber None = NaN"
| "toNumber (Some v) = v"

fun js_plus :: "jsnum \<Rightarrow> jsnum \<Rightarrow> jsnum" where
  "js_plus (Num a) (Num b) = Num (a + b)"
| "js_plus _ _ = NaN"

fun js_times :: "jsnum \<Rightarrow> jsnum \<Rightarrow> jsnum" where
  "js_times (Num a) (Num b) = Num (a * b)"
| "js_times _ _ = NaN"

text \<open>\<^verbatim>\<open>x === y\<close> on numbers: NaN is equal to nothing, not even to itself.\<close>

fun js_strict_equals :: "jsnum \<Rightarrow> jsnum \<Rightarrow> bool" where
  "js_strict_equals (Num a) (Num b) = (a = b)"
| "js_strict_equals _ _ = False"

subsection \<open>Rounding to a double\<close>

text \<open>
  The integer nearest to \<open>x\<close>, the even one of two that are equally near; and the double
  nearest to a real number \<open>x\<close> below \<open>2 ^ 1024\<close> in magnitude (round to nearest, ties
  to even, 53 significant bits, subnormal below \<open>2 ^ -1022\<close>). The literal \<^verbatim>\<open>0.8\<close> is
  the double \<open>double_0_8\<close>.
\<close>

definition rne :: "real \<Rightarrow> int" where
  "rne x =
     (let f = \<lfloor>x\<rfloor>; d = x - of_int f
      in if d < 1 / 2 then f
         else if 1 / 2 < d then f + 1
         else if even f then f else f + 1)"

definition round_double :: "real \<Rightarrow> real" where
  "round_double x =
     (if x = 0 then 0
      else (let e = max \<lfloor>log 2 \<bar>x\<bar>\<rfloor> (- 1022);
                ulp = 2 powi (e - 52)
            in sgn x * (of_int (rne (\<bar>x\<bar> / ulp)) * ulp)))"

definition double_0_8 :: real where
  "double_0_8 = 3602879701896397 / 4503599627370496"

text \<open>\<^verbatim>\<open>Math.PI\<close> is the double nearest to \<open>pi\<close>.\<close>

definition double_pi :: real where
  "double_pi = 884279719003555 / 281474976710656"

subsection \<open>Dates and the seasonality multiplier\<close>

text \<open>
  A \<^verbatim>\<open>Date\<close> is its time value: integer milliseconds since the epoch, or
  \<open>None\<close> for an invalid date. \<^verbatim>\<open>getMonth\<close> reads the month index (0 to 11) in the
  host's local time zone; the host's calendar is the parameter \<open>getMonth\<close> of the
  functions that need it. On an invalid date \<^verbatim>\<open>getMonth()\<close> is NaN, every comparison
  with it is false, and the last \<^verbatim>\<open>return\<close> is taken.
\<close>

type_synonym date = "int option"

definition getSeasonalityMultiplier :: "(int \<Rightarrow> nat) \<Rightarrow> date \<Rightarrow> real" where
  "getSeasonalityMultiplier getMonth d =
     (case d of
        None \<Rightarrow> 1.0
      | Some t \<Rightarrow>
          (let month = getMonth t + 1 in
           if month = 8 \<or> month = 9 then 1.8
           else if month = 1 then 1.3
           else if month = 6 \<or> month = 7 then 0.8
           else 1.0))"

text \<open>\<^verbatim>\<open>new Date(v)\<close> for a number \<open>v\<close>: TimeClip, truncating towards zero.\<close>

definition newDate :: "real \<Rightarrow> date" where
  "newDate v =
     (if \<bar>v\<bar> \<le> 8640000000000000 then Some (if 0 \<le> v then \<lfloor>v\<rfloor> else \<lceil>v\<rceil>) else None)"

subsection \<open>Distance\<close>

text \<open>\<^verbatim>\<open>Math.atan2(y, x)\<close> on real numbers.\<close>

definition atan2 :: "real \<Rightarrow> real \<Rightarrow> real" where
  "atan2 y x =
     (if 0 < x then arctan (y / x)
      else if x < 0 then (if 0 \<le> y then arctan (y / x) + pi else arctan (y / x) - pi)
      else if 0 < y then pi / 2
      else if y < 0 then - (pi / 2)
      else 0)"

text \<open>
  The term \<^verbatim>\<open>a\<close> of \<^verbatim>\<open>calculateDistance\<close> (lines 300 to 304) in exact arithmetic.
\<close>

definition hav_a :: "real \<Rightarrow> real \<Rightarrow> real \<Rightarrow> real \<Rightarrow> real" where
  "hav_a lat1 lon1 lat2 lon2 =
     (let dLat = (lat2 - lat1) * pi / 180;
          dLon = (lon2 - lon1) * pi / 180
      in sin (dLat / 2) * sin (dLat / 2) +
         cos (lat1 * pi / 180) * cos (lat2 * pi / 180) *
         sin (dLon / 2) * sin (dLon / 2))"

text \<open>
  The same lines as the host evaluates them: every subtraction, product, quotient and sum
  is rounded to a double, and \<^verbatim>\<open>Math.sin\<close> and \<^verbatim>\<open>Math.cos\<close>, which the language
  leaves to the implementation, are the parameters \<open>mathSin\<close> and \<open>mathCos\<close>.
\<close>

definition double_a ::
  "(real \<Rightarrow> real) \<Rightarrow> (real \<Rightarrow> real) \<Rightarrow> real \<Rightarrow> real \<Rightarrow> real \<Rightarrow> real \<Rightarrow> real" where
  "double_a mathSin mathCos lat1 lon1 lat2 lon2 =
     (let dLat = round_double (round_double (round_double (lat2 - lat1) * double_pi) / 180);
          dLon = round_double (round_double (round_double (lon2 - lon1) * double_pi) / 180)
      in round_double
           (round_double (mathSin (round_double (dLat / 2)) * mathSin (round_double (dLat / 2))) +
            round_double
              (round_double
                 (round_double
                    (mathCos (round_double (round_double (lat1 * double_pi) / 180)) *
                     mathCos (round_double (round_double (lat2 * double_pi) / 180))) *
                  mathSin (round_double (dLon / 2))) *
               mathSin (round_double (dLon / 2)))))"

text \<open>A host whose sine and cosine are correctly rounded.\<close>

definition nearest_sin :: "real \<Rightarrow> real" where
  "nearest_sin x = round_double (sin x)"

definition nearest_cos :: "real \<Rightarrow> real" where
  "nearest_cos x = round_double (cos x)"

text \<open>
  \<open>calculateDistance\<close> takes the value of \<^verbatim>\<open>a\<close> from its parameter \<open>doubleA\<close>, as does
  every function that calls it: \<open>double_a mathSin mathCos\<close> for a host, \<open>hav_a\<close> for
  exact arithmetic. The double \<^verbatim>\<open>a\<close> is near \<open>hav_a\<close> and can lie above 1 where \<open>hav_a\<close>
  is 1. \<^verbatim>\<open>Math.sqrt\<close> of a negative number is NaN, and NaN goes through
  \<^verbatim>\<open>Math.atan2\<close> and the products, so the result is NaN when \<^verbatim>\<open>a\<close> is below 0 or
  above 1.
\<close>

definition calculateDistance ::
  "(real \<Rightarrow> real \<Rightarrow> real \<Rightarrow> real \<Rightarrow> real) \<Rightarrow> real \<Rightarrow> real \<Rightarrow> real \<Rightarrow> real \<Rightarrow> jsnum" where
  "calculateDistance doubleA lat1 lon1 lat2 lon2 =
     (let R = 6371;
          a = doubleA lat1 lon1 lat2 lon2
      in if a < 0 \<or> 1 < a then NaN
         else (let c = 2 * atan2 (sqrt a) (sqrt (sqrt (1 - a))) in Num (R * c)))"

text \<open>
  The standard haversine distance, written from the specification's words, to be
  compared with \<open>calculateDistance\<close>.
\<close>

definition spec_haversine :: "real \<Rightarrow> real \<Rightarrow> real \<Rightarrow> real \<Rightarrow> real" where
  "spec_haversine lat1 lon1 lat2 lon2 =
     (let a = (sin (((lat2 - lat1) * pi / 180) / 2))\<^sup>2 +
              cos (lat1 * pi / 180) * cos (lat2 * pi / 180) *
              (sin (((lon2 - lon1) * pi / 180) / 2))\<^sup>2
      in 6371 * 2 * atan2 (sqrt a) (sqrt (1 - a)))"

subsection \<open>The data model\<close>

text \<open>
  The static definition of a node (an entry of \<^verbatim>\<open>nodesData\<close>; the field
  \<^verbatim>\<open>type\<close> is \<open>n_type\<close>, \<^verbatim>\<open>coords\<close> is the pair \<^verbatim>\<open>[coords[0], coords[1]]\<close>)
  and its state (an entry of \<^verbatim>\<open>nodeState\<close>). The name and product are only
  displayed and are left out.
\<close>

record node_def =
  n_type :: string
  initial_stock :: real
  coords :: "real \<times> real"

record node =
  stock :: real
  capacity :: real
  production_rate :: real
  sales_rate :: real
  inbound_rate :: real
  outbound_rate :: real

text \<open>An entry of \<^verbatim>\<open>routesData\<close>: \<^verbatim>\<open>from\<close>, \<^verbatim>\<open>to\<close>, \<^verbatim>\<open>capacity\<close> are
  \<open>r_from\<close>, \<open>r_to\<close>, \<open>r_capacity\<close>.\<close>

record route =
  r_from :: string
  r_to :: string
  vehicle :: string
  r_capacity :: real
  speed :: real
  emission :: real
  frequency :: real

text \<open>
  An entry of \<^verbatim>\<open>movingMarkers\<close>. The Leaflet marker is its position
  \<open>markerLatLng\<close>; \<^verbatim>\<open>lastStartTime\<close> (wall-clock time) is left out.
\<close>

record marker_state =
  vehicleType :: string
  routeCoords :: "(real \<times> real) list"
  duration :: real
  distance :: real
  isMoving :: bool
  currentPosition :: nat
  animationId :: "nat option"
  markerLatLng :: "real \<times> real"

text \<open>\<^verbatim>\<open>scenarioComparison\<close>: an object with exactly these three keys, each an array.\<close>

record comparison =
  baseline :: "real list"
  green_rail :: "real list"
  local_source :: "real list"

text \<open>
  The two charts after \<^verbatim>\<open>initCharts\<close>: the data of the bar chart, and the labels and
  the three datasets' data of the line chart.
\<close>

record chart_state =
  co2Chart_data :: "jsnum option list"
  scenarioChart_labels :: "real list"
  dataset0 :: "jsnum list"
  dataset1 :: "jsnum list"
  dataset2 :: "jsnum list"

text \<open>
  A pending \<^verbatim>\<open>setTimeout\<close> callback: a step of a vehicle's animation, the reset of a
  vehicle three seconds after its arrival, and the arrival of a shipment of a given
  size at a node. Delays are left out: any pending timer may be the next to fire.
\<close>

datatype callback =
    Animate string
  | ResetVehicle string
  | Arrive string real

record sim =
  isPlaying :: bool
  simulationSpeed :: real
  currentScenario :: string
  startDate :: date
  currentDate :: date
  simulationTime :: real
  nodeState :: "(string \<times> node) list"
  routesData :: "(string \<times> route) list"
  nodesData :: "string \<rightharpoonup> node_def"
  routeCoordinates :: "string \<rightharpoonup> (real \<times> real) list"
  movingMarkers :: "string \<rightharpoonup> marker_state"
  co2Data :: "string \<rightharpoonup> (string \<rightharpoonup> jsnum)"
  scenarioComparison :: comparison
  charts :: chart_state
  theMap :: bool
  windowMap :: bool
  timers :: "(nat \<times> callback) list"
  nextTimerId :: nat
  pendingFrames :: nat

text \<open>
  \<open>theMap\<close>: the global \<^verbatim>\<open>theMap\<close> is truthy; \<open>windowMap\<close>: \<^verbatim>\<open>window[mapId]\<close>
  is. \<open>timers\<close> are the pending \<^verbatim>\<open>setTimeout\<close> callbacks with their ids,
  \<open>pendingFrames\<close> counts the callbacks given to \<^verbatim>\<open>requestAnimationFrame\<close>.
\<close>

datatype error = TypeError

datatype outcome = Done sim | Threw error sim

fun state_of :: "outcome \<Rightarrow> sim" where
  "state_of (Done s) = s"
| "state_of (Threw e s) = s"

text \<open>\<^verbatim>\<open>xs.forEach(f)\<close> with a body that can throw: the first throw ends the loop.\<close>

fun forEach :: "('a \<Rightarrow> sim \<Rightarrow> outcome) \<Rightarrow> 'a list \<Rightarrow> sim \<Rightarrow> outcome" where
  "forEach f [] s = Done s"
| "forEach f (x # xs) s =
     (case f x s of Done s' \<Rightarrow> forEach f xs s' | Threw e s' \<Rightarrow> Threw e s')"

text \<open>Mutation of the object \<^verbatim>\<open>nodeState[nodeId]\<close> in place.\<close>

definition modifyNode :: "string \<Rightarrow> (node \<Rightarrow> node) \<Rightarrow> sim \<Rightarrow> sim" where
  "modifyNode nodeId f s = s\<lparr>nodeState := AList.map_entry nodeId f (nodeState s)\<rparr>"

definition setTimeout :: "callback \<Rightarrow> sim \<Rightarrow> nat \<times> sim" where
  "setTimeout cb s =
     (nextTimerId s,
      s\<lparr>timers := timers s @ [(nextTimerId s, cb)], nextTimerId := nextTimerId s + 1\<rparr>)"

definition clearTimeout :: "nat \<Rightarrow> sim \<Rightarrow> sim" where
  "clearTimeout tid s = s\<lparr>timers := filter (\<lambda>p. fst p \<noteq> tid) (timers s)\<rparr>"

subsection \<open>The initial object\<close>

definition zero_acc :: "string \<rightharpoonup> jsnum" where
  "zero_acc = [''truck'' \<mapsto> Num 0, ''rail'' \<mapsto> Num 0, ''air'' \<mapsto> Num 0]"

definition initial_co2Data :: "string \<rightharpoonup> (string \<rightharpoonup> jsnum)" where
  "initial_co2Data =
     [''baseline'' \<mapsto> zero_acc, ''green_rail'' \<mapsto> zero_acc, ''local_source'' \<mapsto> zero_acc]"

definition empty_comparison :: comparison where
  "empty_comparison = \<lparr>baseline = [], green_rail = [], local_source = []\<rparr>"

text \<open>
  The object literal \<^verbatim>\<open>ikeaSimulation\<close> after \<^verbatim>\<open>init\<close> has created the charts.
  \<open>t0\<close> is the time value of \<^verbatim>\<open>new Date('2024-01-01T00:00:00')\<close>, which is read in the
  host's time zone.
\<close>

definition ikeaSimulation :: "int \<Rightarrow> sim" where
  "ikeaSimulation t0 =
     \<lparr>isPlaying = False, simulationSpeed = 1, currentScenario = ''baseline'',
      startDate = Some t0, currentDate = Some t0, simulationTime = 0,
      nodeState = [], routesData = [], nodesData = Map.empty,
      routeCoordinates = Map.empty, movingMarkers = Map.empty,
      co2Data = initial_co2Data, scenarioComparison = empty_comparison,
      charts = \<lparr>co2Chart_data = [Some (Num 0), Some (Num 0), Some (Num 0)],
                scenarioChart_labels = [], dataset0 = [], dataset1 = [], dataset2 = []\<rparr>,
      theMap = False, windowMap = False, timers = [], nextTimerId = 1, pendingFrames = 0\<rparr>"

subsection \<open>The node state updater\<close>

definition updateScenarioRates :: "string \<Rightarrow> sim \<Rightarrow> outcome" where
  "updateScenarioRates nodeId s =
     (case map_of (nodeState s) nodeId of
        None \<Rightarrow> Threw TypeError s
      | Some _ \<Rightarrow>
          (let s1 = modifyNode nodeId (\<lambda>n. n\<lparr>inbound_rate := 0\<rparr>) s;
               s2 = modifyNode nodeId (\<lambda>n. n\<lparr>outbound_rate := 0\<rparr>) s1
           in if currentScenario s2 = ''green_rail'' then
                (if nodeId = ''N2_ROM'' then Done s2 else Done s2)
              else if currentScenario s2 = ''local_source'' then
                (let s3 = (if nodeId = ''N1_SWE''
                           then modifyNode nodeId (\<lambda>n. n\<lparr>production_rate := 0\<rparr>) s2 else s2);
                     s4 = (if nodeId = ''N5_FAC''
                           then modifyNode nodeId
                                  (\<lambda>n. n\<lparr>production_rate := production_rate n * 1.5\<rparr>) s3
                           else s3)
                 in Done s4)
              else Done s2))"

text \<open>The body of the loop of \<^verbatim>\<open>updateNodeStates\<close>, for one key of \<^verbatim>\<open>nodeState\<close>.\<close>

definition updateNode :: "real \<Rightarrow> string \<Rightarrow> sim \<Rightarrow> outcome" where
  "updateNode multiplier nodeId s =
     (case nodesData s nodeId of
        None \<Rightarrow> Threw TypeError s
      | Some d \<Rightarrow>
          (case map_of (nodeState s) nodeId of
             None \<Rightarrow> Threw TypeError s
           | Some _ \<Rightarrow>
               (let s1 = (if n_type d = ''manufacturing'' then
                            modifyNode nodeId
                              (\<lambda>n. let n' = n\<lparr>production_rate := 50 * multiplier\<rparr>
                                    in n'\<lparr>stock := min (capacity n')
                                                      (stock n' + production_rate n' / 3600)\<rparr>) s
                          else s);
                    s2 = (if n_type d = ''retail'' then
                            modifyNode nodeId
                              (\<lambda>n. let n' = n\<lparr>sales_rate := 20 * multiplier\<rparr>
                                    in n'\<lparr>stock := max 0 (stock n' - sales_rate n' / 3600)\<rparr>) s1
                          else s1)
                in updateScenarioRates nodeId s2)))"

definition updateNodeStates :: "(int \<Rightarrow> nat) \<Rightarrow> sim \<Rightarrow> outcome" where
  "updateNodeStates getMonth s =
     (let multiplier = getSeasonalityMultiplier getMonth (currentDate s)
      in forEach (updateNode multiplier) (map fst (nodeState s)) s)"

subsection \<open>The shipment processor\<close>

text \<open>\<^verbatim>\<open>acc[key] += emissions\<close> on an accumulator object.\<close>

definition addTo :: "(string \<rightharpoonup> jsnum) \<Rightarrow> string \<Rightarrow> jsnum \<Rightarrow> (string \<rightharpoonup> jsnum)" where
  "addTo acc key emissions = acc(key \<mapsto> js_plus (toNumber (acc key)) emissions)"

text \<open>
  The body of the loop of \<^verbatim>\<open>processShipments\<close>, for one entry of \<^verbatim>\<open>routesData\<close>.
  The delayed effect on the destination is the pending callback \<open>Arrive\<close>.
\<close>

definition shipRoute ::
  "(real \<Rightarrow> real \<Rightarrow> real \<Rightarrow> real \<Rightarrow> real) \<Rightarrow> string \<times> route \<Rightarrow> sim \<Rightarrow> outcome" where
  "shipRoute doubleA entry s =
     (let route = snd entry; fromNode = r_from route; toNode = r_to route in
      case map_of (nodeState s) fromNode of
        None \<Rightarrow> Threw TypeError s
      | Some src \<Rightarrow>
          if stock src > round_double (r_capacity route * double_0_8) then
            (let shipmentSize = min (r_capacity route) (stock src) in
             case nodesData s fromNode of
               None \<Rightarrow> Threw TypeError s
             | Some fd \<Rightarrow>
                 (case nodesData s toNode of
                    None \<Rightarrow> Threw TypeError s
                  | Some td \<Rightarrow>
                      (let distance = calculateDistance doubleA
                                        (fst (coords fd)) (snd (coords fd))
                                        (fst (coords td)) (snd (coords td));
                           emissions = js_times (js_times (Num shipmentSize) distance)
                                                (Num (emission route)) in
                       case co2Data s (currentScenario s) of
                         None \<Rightarrow> Threw TypeError s
                       | Some acc \<Rightarrow>
                           (let s1 = s\<lparr>co2Data := (co2Data s)(currentScenario s \<mapsto>
                                                       addTo acc (vehicle route) emissions)\<rparr>;
                                s2 = modifyNode fromNode
                                       (\<lambda>n. n\<lparr>stock := stock n - shipmentSize\<rparr>) s1;
                                s3 = modifyNode fromNode
                                       (\<lambda>n. n\<lparr>outbound_rate := outbound_rate n + shipmentSize\<rparr>) s2
                            in Done (snd (setTimeout (Arrive toNode shipmentSize) s3))))))
          else Done s)"

definition processShipments :: "(real \<Rightarrow> real \<Rightarrow> real \<Rightarrow> real \<Rightarrow> real) \<Rightarrow> sim \<Rightarrow> outcome" where
  "processShipments doubleA s = forEach (shipRoute doubleA) (routesData s) s"

text \<open>The callback scheduled by \<open>shipRoute\<close>.\<close>

definition arrive :: "string \<Rightarrow> real \<Rightarrow> sim \<Rightarrow> outcome" where
  "arrive toNode shipmentSize s =
     (case map_of (nodeState s) toNode of
        None \<Rightarrow> Threw TypeError s
      | Some _ \<Rightarrow>
          (let s1 = modifyNode toNode
                      (\<lambda>n. n\<lparr>stock := min (capacity n) (stock n + shipmentSize)\<rparr>) s
           in Done (modifyNode toNode
                      (\<lambda>n. n\<lparr>inbound_rate := inbound_rate n + shipmentSize\<rparr>) s1)))"

subsection \<open>The charts\<close>

text \<open>\<^verbatim>\<open>acc.truck + acc.rail + acc.air\<close>, left to right.\<close>

definition allVehicleSum :: "(string \<rightharpoonup> jsnum) \<Rightarrow> jsnum" where
  "allVehicleSum acc =
     js_plus (js_plus (toNumber (acc ''truck'')) (toNumber (acc ''rail'')))
             (toNumber (acc ''air''))"

text \<open>\<^verbatim>\<open>Math.round(simulationTime / 86400)\<close>: the nearest integer, halves upwards.\<close>

definition timeLabel :: "sim \<Rightarrow> real" where
  "timeLabel s = of_int \<lfloor>simulationTime s / 86400 + 1 / 2\<rfloor>"

definition pushLabels :: "real \<Rightarrow> sim \<Rightarrow> sim" where
  "pushLabels l s =
     (let c = scenarioComparison s;
          c1 = c\<lparr>baseline := baseline c @ [l]\<rparr>;
          c2 = c1\<lparr>green_rail := green_rail c1 @ [l]\<rparr>;
          c3 = c2\<lparr>local_source := local_source c2 @ [l]\<rparr>;
          s1 = s\<lparr>scenarioComparison := c3\<rparr>
      in s1\<lparr>charts := (charts s1)\<lparr>scenarioChart_labels :=
                                     scenarioChart_labels (charts s1) @ [l]\<rparr>\<rparr>)"

definition updateCharts :: "sim \<Rightarrow> outcome" where
  "updateCharts s =
     (case co2Data s (currentScenario s) of
        None \<Rightarrow> Threw TypeError s
      | Some acc \<Rightarrow>
          (let s1 = s\<lparr>charts := (charts s)\<lparr>co2Chart_data :=
                                    [acc ''truck'', acc ''rail'', acc ''air'']\<rparr>\<rparr>;
               l = timeLabel s1 in
           if l \<notin> set (baseline (scenarioComparison s1)) then
             (let s2 = pushLabels l s1 in
              case co2Data s2 ''baseline'' of
                None \<Rightarrow> Threw TypeError s2
              | Some b \<Rightarrow>
                  (let s3 = s2\<lparr>charts := (charts s2)\<lparr>dataset0 :=
                                   dataset0 (charts s2) @ [allVehicleSum b]\<rparr>\<rparr> in
                   case co2Data s3 ''green_rail'' of
                     None \<Rightarrow> Threw TypeError s3
                   | Some g \<Rightarrow>
                       (let s4 = s3\<lparr>charts := (charts s3)\<lparr>dataset1 :=
                                        dataset1 (charts s3) @ [allVehicleSum g]\<rparr>\<rparr> in
                        case co2Data s4 ''local_source'' of
                          None \<Rightarrow> Threw TypeError s4
                        | Some ls \<Rightarrow>
                            Done (s4\<lparr>charts := (charts s4)\<lparr>dataset2 :=
                                       dataset2 (charts s4) @ [allVehicleSum ls]\<rparr>\<rparr>))))
           else Done s1))"

text \<open>\<^verbatim>\<open>updateDisplay\<close> writes text into the page and changes nothing of the state.\<close>

definition updateDisplay :: "sim \<Rightarrow> sim" where
  "updateDisplay s = s"

subsection \<open>The tick driver and the controls\<close>

text \<open>The clock: \<^verbatim>\<open>simulationTime += deltaTime\<close>, and the date derived from it.\<close>

definition advanceTime :: "sim \<Rightarrow> sim" where
  "advanceTime s =
     (let deltaTime = (1 / 60) * simulationSpeed s;
          s1 = s\<lparr>simulationTime := simulationTime s + deltaTime\<rparr>
      in s1\<lparr>currentDate :=
               (case startDate s1 of
                  None \<Rightarrow> None
                | Some t \<Rightarrow> newDate (of_int t + simulationTime s1 * 1000))\<rparr>)"

text \<open>
  The \<^verbatim>\<open>try\<close> block of \<^verbatim>\<open>simulationStep\<close> after the two early returns. The test
  \<^verbatim>\<open>Math.floor(t) % 60 === 0\<close> holds exactly when 60 divides the floor, whatever
  its sign.
\<close>

definition stepBody ::
  "(int \<Rightarrow> nat) \<Rightarrow> (real \<Rightarrow> real \<Rightarrow> real \<Rightarrow> real \<Rightarrow> real) \<Rightarrow> sim \<Rightarrow> outcome" where
  "stepBody getMonth doubleA s =
     (case updateNodeStates getMonth (advanceTime s) of
        Threw e s3 \<Rightarrow> Threw e s3
      | Done s3 \<Rightarrow>
          (case processShipments doubleA s3 of
             Threw e s4 \<Rightarrow> Threw e s4
           | Done s4 \<Rightarrow>
               (let s5 = updateDisplay s4 in
                case (if \<lfloor>simulationTime s5\<rfloor> mod 60 = 0 then updateCharts s5 else Done s5) of
                  Threw e s6 \<Rightarrow> Threw e s6
                | Done s6 \<Rightarrow> Done (s6\<lparr>pendingFrames := pendingFrames s6 + 1\<rparr>))))"

definition simulationStep ::
  "(int \<Rightarrow> nat) \<Rightarrow> (real \<Rightarrow> real \<Rightarrow> real \<Rightarrow> real \<Rightarrow> real) \<Rightarrow> sim \<Rightarrow> sim" where
  "simulationStep getMonth doubleA s =
     (if \<not> isPlaying s then s
      else
        (let s0 = (if \<not> theMap s then s\<lparr>theMap := windowMap s\<rparr> else s) in
         if \<not> theMap s0 then s0
         else
           (case stepBody getMonth doubleA s0 of
              Done s' \<Rightarrow> s'
            | Threw e s' \<Rightarrow> s'\<lparr>isPlaying := False\<rparr>)))"

definition startSimulation ::
  "(int \<Rightarrow> nat) \<Rightarrow> (real \<Rightarrow> real \<Rightarrow> real \<Rightarrow> real \<Rightarrow> real) \<Rightarrow> sim \<Rightarrow> sim" where
  "startSimulation getMonth doubleA s = simulationStep getMonth doubleA s"

definition stopSimulation :: "sim \<Rightarrow> sim" where
  "stopSimulation s = s"

definition toggleSimulation ::
  "(int \<Rightarrow> nat) \<Rightarrow> (real \<Rightarrow> real \<Rightarrow> real \<Rightarrow> real \<Rightarrow> real) \<Rightarrow> sim \<Rightarrow> sim" where
  "toggleSimulation getMonth doubleA s =
     (let s1 = s\<lparr>isPlaying := \<not> isPlaying s\<rparr>
      in if isPlaying s1 then startSimulation getMonth doubleA s1 else stopSimulation s1)"

text \<open>The body of the first loop of \<^verbatim>\<open>resetSimulation\<close>.\<close>

definition resetNode :: "string \<Rightarrow> sim \<Rightarrow> outcome" where
  "resetNode nodeId s =
     (case map_of (nodeState s) nodeId of
        None \<Rightarrow> Threw TypeError s
      | Some _ \<Rightarrow>
          (case nodesData s nodeId of
             None \<Rightarrow> Threw TypeError s
           | Some d \<Rightarrow>
               (let s1 = modifyNode nodeId (\<lambda>n. n\<lparr>stock := initial_stock d\<rparr>) s;
                    s2 = modifyNode nodeId (\<lambda>n. n\<lparr>inbound_rate := 0\<rparr>) s1
                in Done (modifyNode nodeId (\<lambda>n. n\<lparr>outbound_rate := 0\<rparr>) s2))))"

definition resetSimulation :: "sim \<Rightarrow> outcome" where
  "resetSimulation s =
     (let s0 = stopSimulation s;
          s1 = s0\<lparr>currentDate := startDate s0\<rparr>;
          s2 = s1\<lparr>simulationTime := 0\<rparr>;
          s3 = s2\<lparr>isPlaying := False\<rparr>
      in case forEach resetNode (map fst (nodeState s3)) s3 of
           Threw e s4 \<Rightarrow> Threw e s4
         | Done s4 \<Rightarrow>
             (let s5 = s4\<lparr>co2Data := (\<lambda>scenario. map_option (\<lambda>_. zero_acc)
                                                      (co2Data s4 scenario))\<rparr>;
                  s6 = s5\<lparr>scenarioComparison := empty_comparison\<rparr>
              in updateCharts (updateDisplay s6)))"

subsection \<open>The vehicle animator\<close>

definition modifyMarker :: "string \<Rightarrow> (marker_state \<Rightarrow> marker_state) \<Rightarrow> sim \<Rightarrow> sim" where
  "modifyMarker routeId f s =
     s\<lparr>movingMarkers := (\<lambda>k. if k = routeId then map_option f (movingMarkers s k)
                               else movingMarkers s k)\<rparr>"

definition onVehicleArrival :: "string \<Rightarrow> sim \<Rightarrow> sim" where
  "onVehicleArrival routeId s =
     (case movingMarkers s routeId of
        None \<Rightarrow> s
      | Some _ \<Rightarrow>
          snd (setTimeout (ResetVehicle routeId)
                 (modifyMarker routeId (\<lambda>v. v\<lparr>isMoving := False\<rparr>) s)))"

text \<open>
  The closure \<^verbatim>\<open>animate\<close> of \<^verbatim>\<open>startVehicleMovement\<close>, for the vehicle of a route.
  Nothing in the source replaces an entry of \<^verbatim>\<open>movingMarkers\<close> once markers exist,
  so the vehicle the closure holds is the entry of its route.
\<close>

definition animate :: "string \<Rightarrow> sim \<Rightarrow> sim" where
  "animate routeId s =
     (case movingMarkers s routeId of
        None \<Rightarrow> s
      | Some v \<Rightarrow>
          if \<not> isMoving v then s
          else
            (let s1 = modifyMarker routeId
                        (\<lambda>v. v\<lparr>currentPosition := currentPosition v + 1\<rparr>) s;
                 pos = currentPosition v + 1 in
             if pos \<ge> length (routeCoords v) then onVehicleArrival routeId s1
             else
               (let s2 = modifyMarker routeId
                           (\<lambda>v. v\<lparr>markerLatLng := routeCoords v ! pos\<rparr>) s1;
                    (tid, s3) = setTimeout (Animate routeId) s2
                in modifyMarker routeId (\<lambda>v. v\<lparr>animationId := Some tid\<rparr>) s3)))"

definition startVehicleMovement :: "string \<Rightarrow> sim \<Rightarrow> sim" where
  "startVehicleMovement routeId s =
     (case movingMarkers s routeId of
        None \<Rightarrow> s
      | Some v \<Rightarrow>
          if \<not> isMoving v \<and> length (routeCoords v) > 1 then
            animate routeId
              (modifyMarker routeId (\<lambda>v. v\<lparr>isMoving := True, currentPosition := 0\<rparr>) s)
          else s)"

text \<open>A timer id is truthy when it is not 0.\<close>

definition resetVehiclePosition :: "string \<Rightarrow> sim \<Rightarrow> sim" where
  "resetVehiclePosition routeId s =
     (case movingMarkers s routeId of
        None \<Rightarrow> s
      | Some v \<Rightarrow>
          (let s1 = (case animationId v of
                       None \<Rightarrow> s
                     | Some tid \<Rightarrow>
                         if tid \<noteq> 0 then
                           modifyMarker routeId (\<lambda>v. v\<lparr>animationId := None\<rparr>)
                             (clearTimeout tid s)
                         else s);
               s2 = (case routeCoordinates s1 routeId of
                       None \<Rightarrow> s1
                     | Some cs \<Rightarrow>
                         (case cs of
                            [] \<Rightarrow> s1
                          | c # _ \<Rightarrow> modifyMarker routeId (\<lambda>v. v\<lparr>markerLatLng := c\<rparr>) s1))
           in modifyMarker routeId (\<lambda>v. v\<lparr>isMoving := False, currentPosition := 0\<rparr>) s2))"

subsection \<open>Pending callbacks\<close>

fun runCallback :: "callback \<Rightarrow> sim \<Rightarrow> outcome" where
  "runCallback (Animate routeId) s = Done (animate routeId s)"
| "runCallback (ResetVehicle routeId) s =
     Done (case movingMarkers s routeId of
             None \<Rightarrow> s
           | Some _ \<Rightarrow> resetVehiclePosition routeId s)"
| "runCallback (Arrive toNode shipmentSize) s = arrive toNode shipmentSize s"

text \<open>The timer with id \<open>tid\<close> fires: it leaves the pending timers and its callback runs.\<close>

definition fireTimer :: "nat \<Rightarrow> sim \<Rightarrow> outcome" where
  "fireTimer tid s =
     (case map_of (timers s) tid of
        None \<Rightarrow> Done s
      | Some cb \<Rightarrow> runCallback cb (clearTimeout tid s))"

subsection \<open>Stock bounds and runs of the simulation\<close>

text \<open>
  Every entry of \<^verbatim>\<open>nodeState\<close> has its stock within 0 and its capacity; every route
  has a capacity that is not negative; every pending arrival carries a size that is not
  negative.
\<close>

definition stock_ok :: "sim \<Rightarrow> bool" where
  "stock_ok s = (\<forall>(nodeId, n) \<in> set (nodeState s). 0 \<le> stock n \<and> stock n \<le> capacity n)"

definition routes_nonneg :: "sim \<Rightarrow> bool" where
  "routes_nonneg s = (\<forall>(routeId, r) \<in> set (routesData s). 0 \<le> r_capacity r)"

fun callback_nonneg :: "callback \<Rightarrow> bool" where
  "callback_nonneg (Arrive toNode shipmentSize) = (0 \<le> shipmentSize)"
| "callback_nonneg _ = True"

definition arrivals_nonneg :: "sim \<Rightarrow> bool" where
  "arrivals_nonneg s = (\<forall>(tid, cb) \<in> set (timers s). callback_nonneg cb)"

text \<open>
  The operations that change stock: a pass of \<^verbatim>\<open>updateNodeStates\<close>, a pass of
  \<^verbatim>\<open>processShipments\<close>, a pending timer firing (the arrival of a shipment among
  them), and a whole frame, \<^verbatim>\<open>simulationStep\<close>. An exception that nobody catches
  leaves the state as it was mutated up to the throw.
\<close>

datatype event = UpdateTick | ShipmentPass | TimerFires nat | Frame

fun apply_event ::
  "(int \<Rightarrow> nat) \<Rightarrow> (real \<Rightarrow> real \<Rightarrow> real \<Rightarrow> real \<Rightarrow> real) \<Rightarrow> event \<Rightarrow> sim \<Rightarrow> sim" where
  "apply_event getMonth doubleA UpdateTick s = state_of (updateNodeStates getMonth s)"
| "apply_event getMonth doubleA ShipmentPass s = state_of (processShipments doubleA s)"
| "apply_event getMonth doubleA (TimerFires tid) s = state_of (fireTimer tid s)"
| "apply_event getMonth doubleA Frame s = simulationStep getMonth doubleA s"

fun run ::
  "(int \<Rightarrow> nat) \<Rightarrow> (real \<Rightarrow> real \<Rightarrow> real \<Rightarrow> real \<Rightarrow> real) \<Rightarrow> event list \<Rightarrow> sim \<Rightarrow> sim" where
  "run getMonth doubleA [] s = s"
| "run getMonth doubleA (e # es) s = run getMonth doubleA es (apply_event getMonth doubleA e s)"

definition sim_inv :: "sim \<Rightarrow> bool" where
  "sim_inv s = (stock_ok s \<and> routes_nonneg s \<and> arrivals_nonneg s)"

text \<open>A network of two nodes and one route of capacity \<open>c\<close> from the first to the second.\<close>

definition node_A :: node where
  "node_A = \<lparr>stock = 10, capacity = 10, production_rate = 0, sales_rate = 0,
             inbound_rate = 0, outbound_rate = 0\<rparr>"

definition node_B :: node where
  "node_B = \<lparr>stock = 0, capacity = 20, production_rate = 0, sales_rate = 0,
             inbound_rate = 0, outbound_rate = 0\<rparr>"

definition route_A_B :: "real \<Rightarrow> route" where
  "route_A_B c = \<lparr>r_from = ''A'', r_to = ''B'', vehicle = ''truck'', r_capacity = c,
                  speed = 60, emission = 1 / 10, frequency = 1\<rparr>"

definition two_node_network :: "real \<Rightarrow> sim" where
  "two_node_network c =
     (ikeaSimulation 0)
       \<lparr>isPlaying := True,
        nodeState := [(''A'', node_A), (''B'', node_B)],
        routesData := [(''A_B'', route_A_B c)],
        nodesData :=
          [''A'' \<mapsto> \<lparr>n_type = ''manufacturing'', initial_stock = 10, coords = (0, 0)\<rparr>,
           ''B'' \<mapsto> \<lparr>n_type = ''retail'', initial_stock = 0, coords = (0, 90)\<rparr>],
        theMap := True\<rparr>"



subsection \<open>The steps of a reset\<close>

definition reset_fields :: "node_def \<Rightarrow> node \<Rightarrow> node" where
  "reset_fields d n = n\<lparr>stock := initial_stock d, inbound_rate := 0, outbound_rate := 0\<rparr>"

text \<open>
  \<open>resetSimulation\<close> in two steps: the loop over the nodes, from the state with the clock
  reset, and the rest.
\<close>

definition reset_clock :: "sim \<Rightarrow> sim" where
  "reset_clock s = s\<lparr>currentDate := startDate s, simulationTime := 0, isPlaying := False\<rparr>"

definition reset_rest :: "sim \<Rightarrow> sim" where
  "reset_rest s4 = s4\<lparr>co2Data := (\<lambda>scenario. map_option (\<lambda>_. zero_acc) (co2Data s4 scenario)),
                       scenarioComparison := empty_comparison\<rparr>"

definition node_is_reset :: "sim \<Rightarrow> string \<Rightarrow> bool" where
  "node_is_reset s nodeId =
     (case map_of (nodeState s) nodeId of
        None \<Rightarrow> True
      | Some n \<Rightarrow>
          (case nodesData s nodeId of
             None \<Rightarrow> False
           | Some d \<Rightarrow> stock n = initial_stock d \<and> inbound_rate n = 0 \<and> outbound_rate n = 0))"

definition zero_comparison :: comparison where
  "zero_comparison = \<lparr>baseline = [0], green_rail = [0], local_source = [0]\<rparr>"

subsection \<open>A tick that takes a snapshot\<close>



definition chart_inputs :: "sim \<Rightarrow> real \<times> comparison \<times> chart_state \<times> string \<times> nat" where
  "chart_inputs s =
     (simulationTime s, scenarioComparison s, charts s, currentScenario s, pendingFrames s)"

subsection \<open>A vehicle on the route\<close>

text \<open>
  The two-node network with a marker on its route, three waypoints long, and the same
  after \<^verbatim>\<open>startVehicleMovement\<close>: the vehicle has taken its first step and the timer
  of its next step is pending.
\<close>

definition vehicle_network :: sim where
  "vehicle_network =
     (two_node_network 5)
       \<lparr>routeCoordinates := [''A_B'' \<mapsto> [(0, 0), (0, 45), (0, 90)]],
        movingMarkers :=
          [''A_B'' \<mapsto> \<lparr>vehicleType = ''truck'', routeCoords = [(0, 0), (0, 45), (0, 90)],
                        duration = 1000, distance = 10, isMoving = False, currentPosition = 0,
                        animationId = None, markerLatLng = (0, 0)\<rparr>],
        nextTimerId := 10\<rparr>"

definition moving_state :: sim where
  "moving_state = startVehicleMovement ''A_B'' vehicle_network"

text \<open>The vehicle has arrived: the timer of its reset is pending.\<close>

definition arrived_state :: sim where
  "arrived_state = state_of (fireTimer 11 (state_of (fireTimer 10 moving_state)))"

section \<open>Properties\<close>

subsection \<open>Rounding\<close>

text \<open>
  A real number within half a unit in the last place of a double rounds to that double.
\<close>

lemma rne_eq:
  assumes "of_int n - 1 / 2 < y" and "y < of_int n + 1 / 2"
  shows "rne y = n"
proof -
  have lo: "n - 1 \<le> \<lfloor>y\<rfloor>" using assms(1) by (simp add: le_floor_iff)
  have hi: "\<lfloor>y\<rfloor> \<le> n" using assms(2) by (simp add: floor_le_iff)
  from lo hi consider "\<lfloor>y\<rfloor> = n" | "\<lfloor>y\<rfloor> = n - 1" by linarith
  then show ?thesis
  proof cases
    case 1
    with assms(2) show ?thesis by (simp add: rne_def Let_def)
  next
    case 2
    with assms(1) show ?thesis by (simp add: rne_def Let_def)
  qed
qed

lemma round_double_eval:
  assumes "2 powi e \<le> \<bar>x\<bar>" and "\<bar>x\<bar> < 2 powi (e + 1)" and "- 1022 \<le> e"
  shows "round_double x = sgn x * (of_int (rne (\<bar>x\<bar> / 2 powi (e - 52))) * 2 powi (e - 52))"
proof -
  have "(0::real) < 2 powi e" by simp
  with assms(1) have pos: "0 < \<bar>x\<bar>" by linarith
  then have nz: "x \<noteq> 0" by auto
  have "(2::real) powr (of_int (e + 1)) = 2 powi (e + 1)" "(2::real) powr (of_int e) = 2 powi e"
    by (simp_all add: powr_real_of_int' del: of_int_add)
  then have "2 powr (of_int e) \<le> \<bar>x\<bar> \<and> \<bar>x\<bar> < 2 powr (of_int e + 1)" using assms(1,2) by simp
  then have "\<lfloor>log 2 \<bar>x\<bar>\<rfloor> = e" using pos by (subst floor_log_eq_powr_iff) simp_all
  with nz assms(3) show ?thesis by (simp add: round_double_def Let_def max_def)
qed

lemma round_double_minus: "round_double (- x) = - round_double x"
  by (simp add: round_double_def Let_def sgn_minus)

lemma round_double_zero: "round_double 0 = 0"
  by (simp add: round_double_def)

lemma round_double_near:
  assumes e: "- 1022 \<le> e"
    and lo: "2 powi e \<le> x" and hi: "x < 2 powi (e + 1)"
    and below: "(of_int n - 1 / 2) * 2 powi (e - 52) < x"
    and above: "x < (of_int n + 1 / 2) * 2 powi (e - 52)"
  shows "round_double x = of_int n * 2 powi (e - 52)"
proof -
  have u: "(0::real) < 2 powi (e - 52)" by simp
  have "(0::real) < 2 powi e" by simp
  with lo have pos: "0 < x" by linarith
  from below u have a: "of_int n - 1 / 2 < x / 2 powi (e - 52)"
    by (simp add: pos_less_divide_eq)
  from above u have b: "x / 2 powi (e - 52) < of_int n + 1 / 2"
    by (simp add: pos_divide_less_eq)
  from rne_eq [OF a b] have r: "rne (x / 2 powi (e - 52)) = n" .
  from pos lo hi have "2 powi e \<le> \<bar>x\<bar>" "\<bar>x\<bar> < 2 powi (e + 1)" by simp_all
  from round_double_eval [OF this e] pos r show ?thesis by simp
qed

lemma sin_poly12:
  "(\<Sum>m<12. sin_coeff m * x ^ m) =
     x - x ^ 3 / 6 + x ^ 5 / 120 - x ^ 7 / 5040 + x ^ 9 / 362880 - x ^ 11 / 39916800"
proof -
  have "(12::nat) = Suc (Suc (Suc (Suc (Suc (Suc (Suc (Suc (Suc (Suc (Suc (Suc 0)))))))))))"
    by simp
  then have "(\<Sum>m<12. sin_coeff m * x ^ m) =
    (\<Sum>m<Suc (Suc (Suc (Suc (Suc (Suc (Suc (Suc (Suc (Suc (Suc (Suc 0))))))))))). sin_coeff m * x ^ m)"
    by (simp only:)
  also have "\<dots> = x - x ^ 3 / 6 + x ^ 5 / 120 - x ^ 7 / 5040 + x ^ 9 / 362880 - x ^ 11 / 39916800"
    unfolding sum.lessThan_Suc sin_coeff_def
    apply (simp add: fact_numeral numeral_eq_Suc [symmetric] del: One_nat_def)
    apply (simp add: eval_nat_numeral)
    done
  finally show ?thesis .
qed

lemma nearest_sin_dLat:
  "nearest_sin (5030569068109113 / 36028797018963968) = 5014239404989977 / 36028797018963968"
proof -
  let ?x = "5030569068109113 / 36028797018963968 :: real"
  have b: "\<bar>sin ?x - (\<Sum>m<12. sin_coeff m * ?x ^ m)\<bar> \<le> inverse (fact 12) * \<bar>?x\<bar> ^ 12"
    by (rule Maclaurin_sin_bound)
  define P where "P = ?x - ?x ^ 3 / 6 + ?x ^ 5 / 120 - ?x ^ 7 / 5040 + ?x ^ 9 / 362880 - ?x ^ 11 / 39916800"
  define E where "E = inverse (fact 12) * \<bar>?x\<bar> ^ 12"
  from b have "\<bar>sin ?x - P\<bar> \<le> E" by (simp only: sin_poly12 P_def E_def)
  then have lo: "P - E \<le> sin ?x" and hi: "sin ?x \<le> P + E" by linarith+
  have 1: "(of_int 5014239404989977 - 1 / 2) * 2 powi (- 3 - 52) < P - E"
    by (simp add: P_def E_def fact_numeral power_int_minus power_divide)
  have 2: "P + E < (of_int 5014239404989977 + 1 / 2) * 2 powi (- 3 - 52)"
    by (simp add: P_def E_def fact_numeral power_int_minus power_divide)
  have 3: "2 powi (- 3) \<le> P - E"
    by (simp add: P_def E_def fact_numeral power_int_minus power_divide)
  have 4: "P + E < 2 powi (- 3 + 1)"
    by (simp add: P_def E_def fact_numeral power_int_minus power_divide)
  have "round_double (sin ?x) = of_int 5014239404989977 * 2 powi (- 3 - 52)"
    by (rule round_double_near) (use lo hi 1 2 3 4 in linarith)+
  then show ?thesis by (simp add: nearest_sin_def power_int_minus)
qed


lemma Maclaurin_cos_bound:
  "\<bar>cos x - (\<Sum>m<n. cos_coeff m * x ^ m)\<bar> \<le> inverse (fact n) * \<bar>x\<bar> ^ n"
proof -
  from Maclaurin_cos_expansion [of x n] obtain t where
    t: "cos x = (\<Sum>m<n. cos_coeff m * x ^ m) + (cos (t + 1 / 2 * real n * pi) / fact n) * x ^ n"
    by blast
  define k where "k = cos (t + 1 / 2 * real n * pi)"
  define B where "B = inverse (fact n) * \<bar>x\<bar> ^ n"
  have k: "\<bar>k\<bar> \<le> 1" unfolding k_def by (rule abs_cos_le_one)
  have B: "0 \<le> B" by (simp add: B_def)
  have "\<bar>k / fact n * x ^ n\<bar> = \<bar>k\<bar> * B"
    by (simp add: B_def abs_mult power_abs field_simps)
  also from k B have "\<dots> \<le> 1 * B" by (rule mult_right_mono)
  finally have "\<bar>k / fact n * x ^ n\<bar> \<le> B" by simp
  with t show ?thesis by (simp add: k_def B_def)
qed

lemma cos_poly12:
  "(\<Sum>m<12. cos_coeff m * x ^ m) =
     1 - x ^ 2 / 2 + x ^ 4 / 24 - x ^ 6 / 720 + x ^ 8 / 40320 - x ^ 10 / 3628800"
proof -
  have "(12::nat) = Suc (Suc (Suc (Suc (Suc (Suc (Suc (Suc (Suc (Suc (Suc (Suc 0)))))))))))"
    by simp
  then have "(\<Sum>m<12. cos_coeff m * x ^ m) =
    (\<Sum>m<Suc (Suc (Suc (Suc (Suc (Suc (Suc (Suc (Suc (Suc (Suc (Suc 0))))))))))). cos_coeff m * x ^ m)"
    by (simp only:)
  also have "\<dots> = 1 - x ^ 2 / 2 + x ^ 4 / 24 - x ^ 6 / 720 + x ^ 8 / 40320 - x ^ 10 / 3628800"
    unfolding sum.lessThan_Suc cos_coeff_def
    apply (simp add: fact_numeral numeral_eq_Suc [symmetric] del: One_nat_def)
    apply (simp add: eval_nat_numeral)
    done
  finally show ?thesis .
qed

lemma nearest_cos_lat:
  "nearest_cos (5030569068109113 / 36028797018963968) = 4459770905381437 / 4503599627370496"
proof -
  let ?x = "5030569068109113 / 36028797018963968 :: real"
  have b: "\<bar>cos ?x - (\<Sum>m<12. cos_coeff m * ?x ^ m)\<bar> \<le> inverse (fact 12) * \<bar>?x\<bar> ^ 12"
    by (rule Maclaurin_cos_bound)
  define P where "P = 1 - ?x ^ 2 / 2 + ?x ^ 4 / 24 - ?x ^ 6 / 720 + ?x ^ 8 / 40320 - ?x ^ 10 / 3628800"
  define E where "E = inverse (fact 12) * \<bar>?x\<bar> ^ 12"
  from b have "\<bar>cos ?x - P\<bar> \<le> E" by (simp only: cos_poly12 P_def E_def)
  then have lo: "P - E \<le> cos ?x" and hi: "cos ?x \<le> P + E" by linarith+
  have 1: "(of_int 8919541810762874 - 1 / 2) * 2 powi (- 1 - 52) < P - E"
    by (simp add: P_def E_def fact_numeral power_int_minus power_divide)
  have 2: "P + E < (of_int 8919541810762874 + 1 / 2) * 2 powi (- 1 - 52)"
    by (simp add: P_def E_def fact_numeral power_int_minus power_divide)
  have "round_double (cos ?x) = of_int 8919541810762874 * 2 powi (- 1 - 52)"
    by (rule round_double_near) (use lo hi 1 2 in \<open>simp_all add: power_int_minus\<close>)
  then show ?thesis by (simp add: nearest_cos_def power_int_minus)
qed

lemma sin_poly24:
  "(\<Sum>m<24. sin_coeff m * x ^ m) =
     x - x ^ 3 / 6 + x ^ 5 / 120 - x ^ 7 / 5040 + x ^ 9 / 362880 - x ^ 11 / 39916800
     + x ^ 13 / 6227020800 - x ^ 15 / 1307674368000 + x ^ 17 / 355687428096000
     - x ^ 19 / 121645100408832000 + x ^ 21 / 51090942171709440000
     - x ^ 23 / 25852016738884976640000"
proof -
  have "(24::nat) = Suc (Suc (Suc (Suc (Suc (Suc (Suc (Suc (Suc (Suc (Suc (Suc
          (Suc (Suc (Suc (Suc (Suc (Suc (Suc (Suc (Suc (Suc (Suc (Suc 0)))))))))))))))))))))))"
    by simp
  then have "(\<Sum>m<24. sin_coeff m * x ^ m) =
    (\<Sum>m<Suc (Suc (Suc (Suc (Suc (Suc (Suc (Suc (Suc (Suc (Suc (Suc
          (Suc (Suc (Suc (Suc (Suc (Suc (Suc (Suc (Suc (Suc (Suc (Suc 0))))))))))))))))))))))).
        sin_coeff m * x ^ m)"
    by (simp only:)
  also have "\<dots> = x - x ^ 3 / 6 + x ^ 5 / 120 - x ^ 7 / 5040 + x ^ 9 / 362880 - x ^ 11 / 39916800
     + x ^ 13 / 6227020800 - x ^ 15 / 1307674368000 + x ^ 17 / 355687428096000
     - x ^ 19 / 121645100408832000 + x ^ 21 / 51090942171709440000
     - x ^ 23 / 25852016738884976640000"
    unfolding sum.lessThan_Suc sin_coeff_def
    apply (simp add: fact_numeral numeral_eq_Suc [symmetric] del: One_nat_def)
    apply (simp add: eval_nat_numeral)
    done
  finally show ?thesis .
qed

lemma nearest_sin_dLon: "nearest_sin (884279719003555 / 562949953421312) = 1"
proof -
  let ?x = "884279719003555 / 562949953421312 :: real"
  have b: "\<bar>sin ?x - (\<Sum>m<24. sin_coeff m * ?x ^ m)\<bar> \<le> inverse (fact 24) * \<bar>?x\<bar> ^ 24"
    by (rule Maclaurin_sin_bound)
  define P where "P = ?x - ?x ^ 3 / 6 + ?x ^ 5 / 120 - ?x ^ 7 / 5040 + ?x ^ 9 / 362880
     - ?x ^ 11 / 39916800
     + ?x ^ 13 / 6227020800 - ?x ^ 15 / 1307674368000 + ?x ^ 17 / 355687428096000
     - ?x ^ 19 / 121645100408832000 + ?x ^ 21 / 51090942171709440000
     - ?x ^ 23 / 25852016738884976640000"
  define E where "E = inverse (fact 24) * \<bar>?x\<bar> ^ 24"
  from b have "\<bar>sin ?x - P\<bar> \<le> E" by (simp only: sin_poly24 P_def E_def)
  then have lo: "P - E \<le> sin ?x" by linarith
  have 1: "(of_int 9007199254740992 - 1 / 2) * 2 powi (- 1 - 52) < P - E"
    by (simp add: P_def E_def fact_numeral power_int_minus power_divide)
  have le: "sin ?x \<le> 1" by simp
  show ?thesis
  proof (cases "sin ?x = 1")
    case True
    have "round_double 1 = 1"
      by (subst round_double_eval [where e = 0]) (simp_all add: rne_def)
    with True show ?thesis by (simp add: nearest_sin_def)
  next
    case False
    with le have lt: "sin ?x < 1" by (simp only: less_le simp_thms)
    have "round_double (sin ?x) = of_int 9007199254740992 * 2 powi (- 1 - 52)"
      by (rule round_double_near) (use lo lt 1 in \<open>simp_all add: power_int_minus\<close>)
    then show ?thesis by (simp add: nearest_sin_def power_int_minus)
  qed
qed


lemma nearest_sin_minus: "nearest_sin (- x) = - nearest_sin x"
  by (simp add: nearest_sin_def round_double_minus)

lemma nearest_cos_minus: "nearest_cos (- x) = nearest_cos x"
  by (simp add: nearest_cos_def)

lemma double_a_antipodal:
  "double_a nearest_sin nearest_cos (- 8) (- 180) 8 0 = 4503599627370497 / 4503599627370496"
proof -
  have r1: "round_double (8 - - 8) = 16"
    by (subst round_double_eval [where e = 4]) (simp_all add: rne_def Let_def)
  have r2: "round_double (16 * double_pi) = 884279719003555 / 17592186044416"
    by (subst round_double_eval [where e = 5]) (simp_all add: double_pi_def rne_def Let_def)
  have r3: "round_double (884279719003555 / 17592186044416 / 180)
              = 5030569068109113 / 18014398509481984"
    by (subst round_double_eval [where e = "- 2"]) (simp_all add: rne_def Let_def power_int_minus)
  have r4: "round_double (5030569068109113 / 18014398509481984 / 2)
              = 5030569068109113 / 36028797018963968"
    by (subst round_double_eval [where e = "- 3"]) (simp_all add: rne_def Let_def power_int_minus)
  have r5: "round_double (5014239404989977 / 36028797018963968 * (5014239404989977 / 36028797018963968))
              = 1395694493897217 / 72057594037927936"
    by (subst round_double_eval [where e = "- 6"]) (simp_all add: rne_def Let_def power_int_minus)
  have r6: "round_double (- 8 * double_pi) = - (884279719003555 / 35184372088832)"
    by (subst round_double_eval [where e = 4]) (simp_all add: double_pi_def rne_def Let_def)
  have r7: "round_double (- (884279719003555 / 35184372088832) / 180)
              = - (5030569068109113 / 36028797018963968)"
    by (subst round_double_eval [where e = "- 3"]) (simp_all add: rne_def Let_def power_int_minus)
  have r8: "round_double (8 * double_pi) = 884279719003555 / 35184372088832"
    by (subst round_double_eval [where e = 4]) (simp_all add: double_pi_def rne_def Let_def)
  have r9: "round_double (884279719003555 / 35184372088832 / 180)
              = 5030569068109113 / 36028797018963968"
    by (subst round_double_eval [where e = "- 3"]) (simp_all add: rne_def Let_def power_int_minus)
  have r10: "round_double (4459770905381437 / 4503599627370496 * (4459770905381437 / 4503599627370496))
              = 8832737443003841 / 9007199254740992"
    by (subst round_double_eval [where e = "- 1"]) (simp_all add: rne_def Let_def power_int_minus)
  have r11: "round_double (0 - - 180) = 180"
    by (subst round_double_eval [where e = 7]) (simp_all add: rne_def Let_def)
  have r12: "round_double (180 * double_pi) = 4974073419394997 / 8796093022208"
    by (subst round_double_eval [where e = 9]) (simp_all add: double_pi_def rne_def Let_def)
  have r13: "round_double (4974073419394997 / 8796093022208 / 180)
              = 884279719003555 / 281474976710656"
    by (subst round_double_eval [where e = 1]) (simp_all add: rne_def Let_def)
  have r14: "round_double (884279719003555 / 281474976710656 / 2)
              = 884279719003555 / 562949953421312"
    by (subst round_double_eval [where e = 0]) (simp_all add: rne_def Let_def)
  have r15: "round_double (8832737443003841 / 9007199254740992 * 1)
              = 8832737443003841 / 9007199254740992"
    by (subst round_double_eval [where e = "- 1"]) (simp_all add: rne_def Let_def power_int_minus)
  have r16: "round_double (1395694493897217 / 72057594037927936 + 8832737443003841 / 9007199254740992)
              = 4503599627370497 / 4503599627370496"
    by (subst round_double_eval [where e = 0]) (simp_all add: rne_def Let_def)
  show ?thesis
    unfolding double_a_def Let_def
    by (simp only: r1 r2 r3 r4 r5 r6 r7 r8 r9 r10 r11 r12 r13 r14 r15 r16
        nearest_sin_dLat nearest_cos_lat nearest_sin_dLon nearest_cos_minus)
qed

text \<open>The products \<^verbatim>\<open>capacity * 0.8\<close> of the examples.\<close>

lemma threshold_5: "round_double (5 * double_0_8) = 4"
  by (subst round_double_eval [where e = 2]) (simp_all add: double_0_8_def rne_def Let_def)



subsection \<open>Distance\<close>

lemma hav_a_sym: "hav_a lat1 lon1 lat2 lon2 = hav_a lat2 lon2 lat1 lon1"
proof -
  have s: "sin ((x - y) * pi / 180 / 2) * sin ((x - y) * pi / 180 / 2)
         = sin ((y - x) * pi / 180 / 2) * sin ((y - x) * pi / 180 / 2)" for x y :: real
  proof -
    have "(x - y) * pi / 180 / 2 = - ((y - x) * pi / 180 / 2)"
      by (simp add: field_simps)
    then show ?thesis by (simp only: sin_minus)
  qed
  show ?thesis
    unfolding hav_a_def Let_def
    using s [of lat2 lat1] s [of lon2 lon1] by (simp add: mult.commute mult.left_commute)
qed

lemma hav_a_self: "hav_a lat lon lat lon = 0"
  by (simp add: hav_a_def)

text \<open>
  In exact arithmetic the term \<open>a\<close> lies between 0 and 1 for all coordinates, so both
  square roots of \<open>calculateDistance\<close> are taken of numbers that are not negative.
\<close>

lemma hav_a_range: "0 \<le> hav_a lat1 lon1 lat2 lon2 \<and> hav_a lat1 lon1 lat2 lon2 \<le> 1"
proof -
  define p where "p = lat1 * pi / 180"
  define q where "q = lat2 * pi / 180"
  define x where "x = (lat2 - lat1) * pi / 180 / 2"
  define y where "y = (lon2 - lon1) * pi / 180 / 2"
  define S where "S = (sin x)\<^sup>2"
  define T where "T = (sin y)\<^sup>2"
  define C where "C = cos p * cos q"
  have a: "hav_a lat1 lon1 lat2 lon2 = S + C * T"
    by (simp add: hav_a_def Let_def p_def q_def x_def y_def S_def T_def C_def power2_eq_square)
  have S: "0 \<le> S" "S \<le> 1" and T: "0 \<le> T" "T \<le> 1"
    by (simp_all add: S_def T_def power_le_one_iff abs_sin_le_one abs_square_le_1)
  have "q - p = 2 * x" by (simp add: p_def q_def x_def algebra_simps)
  then have "cos (q - p) = 1 - 2 * S" by (simp add: S_def cos_double_sin)
  moreover define k where "k = cos (q + p)"
  moreover have "C = (cos (q - p) + cos (q + p)) / 2"
    by (simp add: C_def cos_add cos_diff)
  ultimately have C: "C = (1 - 2 * S + k) / 2" by simp
  have kb: "- 1 \<le> k" "k \<le> 1" by (simp_all add: k_def)
  from C kb have lo: "- S \<le> C" by argo
  from C kb have hi: "C \<le> 1 - S" by argo
  from lo T(1) have "- S * T \<le> C * T" by (rule mult_right_mono)
  moreover have "0 \<le> S * (1 - T)" using S(1) T(2) by simp
  ultimately have low: "0 \<le> S + C * T" by (simp add: algebra_simps)
  from hi T(1) have "C * T \<le> (1 - S) * T" by (rule mult_right_mono)
  moreover have "(1 - S) * T \<le> 1 - S" using S(2) T(2) by (simp add: mult_left_le)
  ultimately have high: "S + C * T \<le> 1" by argo
  from low high show ?thesis by (simp add: a)
qed

lemma atan2_zero: "atan2 0 1 = 0"
  by (simp add: atan2_def)

text \<open>
  The double \<^verbatim>\<open>a\<close> is symmetric in the two points on a host whose sine is odd, and 0
  for equal points on a host whose sine is 0 at 0.
\<close>

lemma double_a_sym:
  assumes odd: "\<And>x. mathSin (- x) = - mathSin x"
  shows "double_a mathSin mathCos lat1 lon1 lat2 lon2 = double_a mathSin mathCos lat2 lon2 lat1 lon1"
proof -
  define h where "h x y = round_double (round_double (round_double (round_double (y - x) * double_pi) / 180) / 2)"
    for x y :: real
  have g: "round_double (round_double (round_double (round_double (- u) * double_pi) / 180) / 2)
         = - round_double (round_double (round_double (round_double u * double_pi) / 180) / 2)"
    for u
    by (simp add: round_double_minus)
  have h: "h x y = - h y x" for x y
    using g [of "x - y"] by (simp add: h_def)
  have m: "mathSin (h x y) = - mathSin (h y x)" for x y
  proof -
    have "mathSin (h x y) = mathSin (- h y x)" using h [of x y] by simp
    then show ?thesis by (simp only: odd)
  qed
  have sq: "mathSin (h x y) * mathSin (h x y) = mathSin (h y x) * mathSin (h y x)" for x y
    by (simp add: m [of x y])
  have tr: "round_double (round_double (c * mathSin (h x y)) * mathSin (h x y))
          = round_double (round_double (c * mathSin (h y x)) * mathSin (h y x))" for c x y
    by (simp add: m [of x y] round_double_minus)
  show ?thesis
    unfolding double_a_def Let_def h_def [symmetric]
    by (simp only: sq [of lat1 lat2] tr [of _ lon1 lon2]
        mult.commute [of "mathCos (round_double (round_double (lat1 * double_pi) / 180))"])
qed

lemma double_a_self:
  assumes "mathSin 0 = 0"
  shows "double_a mathSin mathCos lat lon lat lon = 0"
  using assms by (simp add: double_a_def round_double_zero)

lemma calculateDistance_sym:
  assumes "doubleA lat1 lon1 lat2 lon2 = doubleA lat2 lon2 lat1 lon1"
  shows "calculateDistance doubleA lat1 lon1 lat2 lon2 = calculateDistance doubleA lat2 lon2 lat1 lon1"
  using assms by (simp add: calculateDistance_def)

lemma calculateDistance_self:
  assumes "doubleA lat lon lat lon = 0"
  shows "calculateDistance doubleA lat lon lat lon = Num 0"
  using assms by (simp add: calculateDistance_def atan2_zero)

lemma calculateDistance_NaN:
  "calculateDistance doubleA lat1 lon1 lat2 lon2 = NaN
     \<longleftrightarrow> doubleA lat1 lon1 lat2 lon2 < 0 \<or> 1 < doubleA lat1 lon1 lat2 lon2"
  by (simp add: calculateDistance_def Let_def)

lemma calculateDistance_antipodal:
  "calculateDistance (double_a nearest_sin nearest_cos) (- 8) (- 180) 8 0 = NaN"
  by (simp add: calculateDistance_NaN double_a_antipodal)

lemma calculateDistance_antipodal_reverse:
  "calculateDistance (double_a nearest_sin nearest_cos) 8 0 (- 8) (- 180) = NaN"
proof -
  have "double_a nearest_sin nearest_cos 8 0 (- 8) (- 180)
          = double_a nearest_sin nearest_cos (- 8) (- 180) 8 0"
    by (rule double_a_sym) (rule nearest_sin_minus)
  then show ?thesis by (simp add: calculateDistance_NaN double_a_antipodal)
qed

lemma hav_a_antipodal: "hav_a (- 8) (- 180) 8 0 = 1"
proof -
  have "(180::real) * pi / 180 / 2 = pi / 2" by simp
  then have "hav_a (- 8) (- 180) 8 0
               = sin (8 * pi / 180) * sin (8 * pi / 180) + cos (8 * pi / 180) * cos (8 * pi / 180)"
    by (simp add: hav_a_def)
  also have "\<dots> = (sin (8 * pi / 180))\<^sup>2 + (cos (8 * pi / 180))\<^sup>2"
    by (simp only: power2_eq_square)
  finally show ?thesis by (simp only: sin_cos_squared_add)
qed

text \<open>
  Claim C5. The distance from a point to itself is 0, and the two directions between two
  points compute the same value, on every host whose sine is odd. That value is NaN when
  the double \<^verbatim>\<open>a\<close> lies outside 0 to 1, and then the comparison \<^verbatim>\<open>===\<close> of the two
  directions is false; it is true exactly when \<^verbatim>\<open>a\<close> lies within 0 and 1. In exact
  arithmetic \<^verbatim>\<open>a\<close> always does, and the two directions are equal numbers.
\<close>

theorem calculateDistance_symmetric_zero:
  fixes mathSin :: "real \<Rightarrow> real" and mathCos :: "real \<Rightarrow> real"
  assumes odd: "\<forall>x. mathSin (- x) = - mathSin x"
  defines "doubleA \<equiv> double_a mathSin mathCos"
  shows "calculateDistance doubleA lat lon lat lon = Num 0
       \<and> calculateDistance doubleA lat1 lon1 lat2 lon2 = calculateDistance doubleA lat2 lon2 lat1 lon1
       \<and> (js_strict_equals (calculateDistance doubleA lat1 lon1 lat2 lon2)
                           (calculateDistance doubleA lat2 lon2 lat1 lon1)
            \<longleftrightarrow> 0 \<le> doubleA lat1 lon1 lat2 lon2 \<and> doubleA lat1 lon1 lat2 lon2 \<le> 1)
       \<and> calculateDistance hav_a lat lon lat lon = Num 0
       \<and> js_strict_equals (calculateDistance hav_a lat1 lon1 lat2 lon2)
                          (calculateDistance hav_a lat2 lon2 lat1 lon1)"
proof -
  from odd have o: "mathSin (- x) = - mathSin x" for x by simp
  from o [of 0] have z: "mathSin 0 = 0" by simp
  have s: "doubleA lat1 lon1 lat2 lon2 = doubleA lat2 lon2 lat1 lon1"
    unfolding doubleA_def by (rule double_a_sym) (rule o)
  have 1: "calculateDistance doubleA lat lon lat lon = Num 0"
    unfolding doubleA_def by (rule calculateDistance_self, rule double_a_self, rule z)
  have 2: "calculateDistance doubleA lat1 lon1 lat2 lon2 = calculateDistance doubleA lat2 lon2 lat1 lon1"
    by (rule calculateDistance_sym) (rule s)
  have 3: "js_strict_equals (calculateDistance doubleA lat1 lon1 lat2 lon2)
                           (calculateDistance doubleA lat2 lon2 lat1 lon1)
            \<longleftrightarrow> 0 \<le> doubleA lat1 lon1 lat2 lon2 \<and> doubleA lat1 lon1 lat2 lon2 \<le> 1"
    by (auto simp: calculateDistance_def Let_def s [symmetric])
  have 4: "calculateDistance hav_a lat lon lat lon = Num 0"
    by (rule calculateDistance_self) (rule hav_a_self)
  have 5: "js_strict_equals (calculateDistance hav_a lat1 lon1 lat2 lon2)
                          (calculateDistance hav_a lat2 lon2 lat1 lon1)"
    using hav_a_range [of lat1 lon1 lat2 lon2]
    by (simp add: calculateDistance_def Let_def hav_a_sym [of lat2 lon2 lat1 lon1] not_less)
  from 1 2 3 4 5 show ?thesis by (intro conjI)
qed

theorem calculateDistance_symmetric_zero_witness:
  "(\<forall>x. nearest_sin (- x) = - nearest_sin x)
   \<and> calculateDistance (double_a nearest_sin nearest_cos) 8 0 8 0 = Num 0
   \<and> calculateDistance (double_a nearest_sin nearest_cos) (- 8) (- 180) 8 0
       = calculateDistance (double_a nearest_sin nearest_cos) 8 0 (- 8) (- 180)
   \<and> \<not> js_strict_equals (calculateDistance (double_a nearest_sin nearest_cos) (- 8) (- 180) 8 0)
                          (calculateDistance (double_a nearest_sin nearest_cos) 8 0 (- 8) (- 180))
   \<and> js_strict_equals (calculateDistance hav_a (- 8) (- 180) 8 0)
                      (calculateDistance hav_a 8 0 (- 8) (- 180))"
proof -
  have odd: "\<forall>x. nearest_sin (- x) = - nearest_sin x"
    by (simp add: nearest_sin_minus)
  from calculateDistance_symmetric_zero [OF odd, of nearest_cos 8 0 "- 8" "- 180" 8 0] odd
  show ?thesis
    by (simp add: double_a_antipodal calculateDistance_antipodal
        calculateDistance_antipodal_reverse)
qed

text \<open>
  Claim C5 as stated fails on a host whose sine and cosine are correctly rounded. Between
  the antipodal points (-8, -180) and (8, 0) the term \<^verbatim>\<open>a\<close> is 1 in exact arithmetic
  and \<open>1 + 1 / 2 ^ 52\<close> in doubles, \<^verbatim>\<open>Math.sqrt(1-a)\<close> is NaN, and the distance is NaN
  in both directions: \<^verbatim>\<open>dist(a,b) === dist(b,a)\<close> is false.
\<close>

theorem calculateDistance_antipodal_counterexample:
  "hav_a (- 8) (- 180) 8 0 = 1
   \<and> double_a nearest_sin nearest_cos (- 8) (- 180) 8 0 = 1 + 1 / 2 ^ 52
   \<and> calculateDistance (double_a nearest_sin nearest_cos) (- 8) (- 180) 8 0 = NaN
   \<and> calculateDistance (double_a nearest_sin nearest_cos) 8 0 (- 8) (- 180) = NaN
   \<and> \<not> js_strict_equals (calculateDistance (double_a nearest_sin nearest_cos) (- 8) (- 180) 8 0)
                          (calculateDistance (double_a nearest_sin nearest_cos) 8 0 (- 8) (- 180))"
  by (simp add: hav_a_antipodal double_a_antipodal calculateDistance_antipodal
      calculateDistance_antipodal_reverse)

lemma hav_a_quarter: "hav_a 0 0 0 90 = 1 / 2"
proof -
  have "(90::real) * pi / 180 / 2 = pi / 4" by simp
  then have "hav_a 0 0 0 90 = sin (pi / 4) * sin (pi / 4)"
    by (simp add: hav_a_def)
  also have "\<dots> = 1 / 2" by (simp add: sin_45)
  finally show ?thesis .
qed

lemma spec_haversine_hav_a:
  "spec_haversine lat1 lon1 lat2 lon2 =
     6371 * 2 * atan2 (sqrt (hav_a lat1 lon1 lat2 lon2)) (sqrt (1 - hav_a lat1 lon1 lat2 lon2))"
  unfolding spec_haversine_def hav_a_def Let_def power2_eq_square
  by (simp only: mult.assoc)

lemma spec_a_quarter: "spec_haversine 0 0 0 90 = 6371 * pi / 2"
proof -
  have "atan2 (sqrt (1 / 2)) (sqrt (1 / 2)) = pi / 4"
    by (simp add: atan2_def arctan_one)
  then show ?thesis
    by (simp add: spec_haversine_hav_a hav_a_quarter)
qed

lemma code_quarter:
  "calculateDistance hav_a 0 0 0 90 = Num (6371 * 2 * arctan (sqrt (sqrt (1 / 2))))"
proof -
  let ?r = "sqrt (sqrt (1 / 2 :: real))"
  have pos: "0 < ?r" by simp
  have "?r * ?r = sqrt (1 / 2)" by simp
  then have "sqrt (1 / 2) / ?r = ?r" using pos by (simp add: divide_eq_eq)
  then have "atan2 (sqrt (1 / 2)) ?r = arctan ?r" using pos by (simp add: atan2_def)
  then show ?thesis
    by (simp add: calculateDistance_def hav_a_quarter)
qed

text \<open>
  Claim C4. \<open>calculateDistance\<close> is meant to be the standard haversine distance,
  \<open>R * 2 * atan2 (sqrt a) (sqrt (1 - a))\<close>. The source takes the square root of
  \<open>1 - a\<close> twice. From (0, 0) to (0, 90), a quarter of the equator, \<open>a\<close> is 1/2, the
  haversine distance is \<open>6371 * pi / 2\<close>, and \<open>calculateDistance\<close> returns less.
\<close>

theorem calculateDistance_not_haversine:
  "spec_haversine 0 0 0 90 = 6371 * pi / 2
   \<and> calculateDistance hav_a 0 0 0 90 = Num (6371 * 2 * arctan (sqrt (sqrt (1 / 2))))
   \<and> 6371 * 2 * arctan (sqrt (sqrt (1 / 2))) < spec_haversine 0 0 0 90"
proof -
  have "sqrt (sqrt (1 / 2 :: real)) < 1" by simp
  then have "arctan (sqrt (sqrt (1 / 2 :: real))) < arctan 1"
    by (simp only: arctan_less_iff)
  then have "arctan (sqrt (sqrt (1 / 2 :: real))) < pi / 4" by (simp add: arctan_one)
  then show ?thesis by (simp add: spec_a_quarter code_quarter)
qed

subsection \<open>Seasonality\<close>

text \<open>
  Claim C7. The seasonality multiplier of a date depends on its calendar month only
  (\<open>getMonth t + 1\<close>): 1.8 in months 8 and 9, 1.3 in month 1, 0.8 in months 6 and 7, and
  1.0 in every other month; two dates of the same month, of whatever years, have the same
  multiplier.
\<close>

theorem seasonality_by_month:
  "(getMonth t + 1 = 8 \<or> getMonth t + 1 = 9 \<longrightarrow>
      getSeasonalityMultiplier getMonth (Some t) = 1.8)
   \<and> (getMonth t + 1 = 1 \<longrightarrow> getSeasonalityMultiplier getMonth (Some t) = 1.3)
   \<and> (getMonth t + 1 = 6 \<or> getMonth t + 1 = 7 \<longrightarrow>
      getSeasonalityMultiplier getMonth (Some t) = 0.8)
   \<and> (getMonth t + 1 \<notin> {1, 6, 7, 8, 9} \<longrightarrow>
      getSeasonalityMultiplier getMonth (Some t) = 1.0)
   \<and> (getMonth t' = getMonth t \<longrightarrow>
      getSeasonalityMultiplier getMonth (Some t') = getSeasonalityMultiplier getMonth (Some t))"
  by (simp add: getSeasonalityMultiplier_def Let_def)

theorem seasonality_by_month_witness:
  "getSeasonalityMultiplier (\<lambda>t. 7) (Some 0) = 1.8
   \<and> getSeasonalityMultiplier (\<lambda>t. 8) (Some 0) = 1.8
   \<and> getSeasonalityMultiplier (\<lambda>t. 0) (Some 0) = 1.3
   \<and> getSeasonalityMultiplier (\<lambda>t. 5) (Some 0) = 0.8
   \<and> getSeasonalityMultiplier (\<lambda>t. 6) (Some 0) = 0.8
   \<and> getSeasonalityMultiplier (\<lambda>t. 2) (Some 0) = 1.0
   \<and> getSeasonalityMultiplier (\<lambda>t. nat (t mod 12)) (Some 12) =
       getSeasonalityMultiplier (\<lambda>t. nat (t mod 12)) (Some 0)"
  using seasonality_by_month [of "\<lambda>t. 7" 0 0] seasonality_by_month [of "\<lambda>t. 8" 0 0]
    seasonality_by_month [of "\<lambda>t. 0" 0 0] seasonality_by_month [of "\<lambda>t. 5" 0 0]
    seasonality_by_month [of "\<lambda>t. 6" 0 0] seasonality_by_month [of "\<lambda>t. 2" 0 0]
    seasonality_by_month [of "\<lambda>t. nat (t mod 12)" 0 12]
  by simp

subsection \<open>Stock stays within the capacity\<close>

lemma map_entry_set:
  "p \<in> set (AList.map_entry k f xs) \<Longrightarrow>
     p \<in> set xs \<or> (\<exists>n. map_of xs k = Some n \<and> p = (k, f n))"
  by (induction xs) (auto split: if_splits)

lemma modifyNode_fields [simp]:
  "routesData (modifyNode k f s) = routesData s"
  "timers (modifyNode k f s) = timers s"
  "nodesData (modifyNode k f s) = nodesData s"
  "co2Data (modifyNode k f s) = co2Data s"
  "currentScenario (modifyNode k f s) = currentScenario s"
  "nextTimerId (modifyNode k f s) = nextTimerId s"
  "nodeState (modifyNode k f s) = AList.map_entry k f (nodeState s)"
  by (simp_all add: modifyNode_def)

lemma modifyNode_inv:
  assumes "sim_inv s"
    and "\<And>n. map_of (nodeState s) k = Some n \<Longrightarrow> 0 \<le> stock n \<Longrightarrow> stock n \<le> capacity n
           \<Longrightarrow> 0 \<le> stock (f n) \<and> stock (f n) \<le> capacity (f n)"
  shows "sim_inv (modifyNode k f s)"
proof -
  have "stock_ok (modifyNode k f s)"
    unfolding stock_ok_def
  proof (clarify)
    fix a n assume m: "(a, n) \<in> set (nodeState (modifyNode k f s))"
    then have "(a, n) \<in> set (AList.map_entry k f (nodeState s))" by simp
    then consider "(a, n) \<in> set (nodeState s)"
      | n0 where "map_of (nodeState s) k = Some n0" "(a, n) = (k, f n0)"
      using map_entry_set by fastforce
    then show "0 \<le> stock n \<and> stock n \<le> capacity n"
    proof cases
      case 1
      with assms(1) show ?thesis by (auto simp: sim_inv_def stock_ok_def)
    next
      case 2
      from 2(1) have "(k, n0) \<in> set (nodeState s)" by (rule map_of_SomeD)
      with assms(1) have "0 \<le> stock n0" "stock n0 \<le> capacity n0"
        by (auto simp: sim_inv_def stock_ok_def)
      with assms(2) [OF 2(1)] 2(2) show ?thesis by simp
    qed
  qed
  with assms(1) show ?thesis
    by (simp add: sim_inv_def routes_nonneg_def arrivals_nonneg_def)
qed

lemma forEach_inv:
  assumes "\<And>x s. x \<in> set xs \<Longrightarrow> P s \<Longrightarrow> P (state_of (f x s))"
    and "P s"
  shows "P (state_of (forEach f xs s))"
  using assms
proof (induction xs arbitrary: s)
  case Nil
  then show ?case by simp
next
  case (Cons x xs)
  from Cons.prems have px: "P (state_of (f x s))" by simp
  show ?case
  proof (cases "f x s")
    case (Done s')
    with px have "P s'" by simp
    then have "P (state_of (forEach f xs s'))"
      using Cons.IH Cons.prems(1) by simp
    with Done show ?thesis by simp
  next
    case (Threw e s')
    with px show ?thesis by simp
  qed
qed

lemma multiplier_pos: "0 < getSeasonalityMultiplier getMonth d"
  by (simp add: getSeasonalityMultiplier_def Let_def split: option.splits)

lemma modifyNode_inv_same:
  assumes "sim_inv s" and "\<And>n. stock (f n) = stock n \<and> capacity (f n) = capacity n"
  shows "sim_inv (modifyNode k f s)"
  using assms(1) by (rule modifyNode_inv) (simp add: assms(2))

lemma updateScenarioRates_inv:
  assumes "sim_inv s"
  shows "sim_inv (state_of (updateScenarioRates nodeId s))"
proof (cases "map_of (nodeState s) nodeId")
  case None
  with assms show ?thesis by (simp add: updateScenarioRates_def)
next
  case (Some n0)
  define s2 where "s2 = modifyNode nodeId (\<lambda>n. n\<lparr>outbound_rate := 0\<rparr>)
                          (modifyNode nodeId (\<lambda>n. n\<lparr>inbound_rate := 0\<rparr>) s)"
  define s3 where "s3 = (if nodeId = ''N1_SWE''
                         then modifyNode nodeId (\<lambda>n. n\<lparr>production_rate := 0\<rparr>) s2 else s2)"
  define s4 where "s4 = (if nodeId = ''N5_FAC''
                         then modifyNode nodeId
                                (\<lambda>n. n\<lparr>production_rate := production_rate n * 1.5\<rparr>) s3
                         else s3)"
  have i2: "sim_inv s2"
    unfolding s2_def by (intro modifyNode_inv_same assms) simp_all
  have i3: "sim_inv s3"
    unfolding s3_def using i2 by (simp add: modifyNode_inv_same)
  have i4: "sim_inv s4"
    unfolding s4_def using i3 by (simp add: modifyNode_inv_same)
  have "state_of (updateScenarioRates nodeId s) = s2 \<or> state_of (updateScenarioRates nodeId s) = s4"
    using Some by (simp add: updateScenarioRates_def Let_def s2_def s3_def s4_def)
  with i2 i4 show ?thesis by auto
qed

lemma updateNode_inv:
  assumes "sim_inv s" "0 < m"
  shows "sim_inv (state_of (updateNode m nodeId s))"
proof (cases "nodesData s nodeId")
  case None
  with assms show ?thesis by (simp add: updateNode_def)
next
  case d: (Some d)
  show ?thesis
  proof (cases "map_of (nodeState s) nodeId")
    case None
    with d assms show ?thesis by (simp add: updateNode_def)
  next
    case (Some n0)
    define f where "f = (\<lambda>n::node. let n' = n\<lparr>production_rate := 50 * m\<rparr>
                    in n'\<lparr>stock := min (capacity n') (stock n' + production_rate n' / 3600)\<rparr>)"
    define g where "g = (\<lambda>n::node. let n' = n\<lparr>sales_rate := 20 * m\<rparr>
                    in n'\<lparr>stock := max 0 (stock n' - sales_rate n' / 3600)\<rparr>)"
    define s1 where "s1 = (if n_type d = ''manufacturing'' then modifyNode nodeId f s else s)"
    define s2 where "s2 = (if n_type d = ''retail'' then modifyNode nodeId g s1 else s1)"
    have "sim_inv (modifyNode nodeId f s)"
      using assms(1)
    proof (rule modifyNode_inv)
      fix n :: node assume "0 \<le> stock n" "stock n \<le> capacity n"
      with assms(2) show "0 \<le> stock (f n) \<and> stock (f n) \<le> capacity (f n)"
        by (simp add: f_def Let_def)
    qed
    with assms(1) have i1: "sim_inv s1" by (simp add: s1_def)
    have "sim_inv (modifyNode nodeId g s1)"
      using i1
    proof (rule modifyNode_inv)
      fix n :: node assume "0 \<le> stock n" "stock n \<le> capacity n"
      with assms(2) show "0 \<le> stock (g n) \<and> stock (g n) \<le> capacity (g n)"
        by (simp add: g_def Let_def)
    qed
    with i1 have i2: "sim_inv s2" by (simp add: s2_def)
    have "map_of (nodeState s1) nodeId \<noteq> None"
      using Some by (simp add: s1_def AList.map_of_map_entry)
    have "updateNode m nodeId s = updateScenarioRates nodeId s2"
      using Some d by (simp add: updateNode_def s2_def s1_def f_def g_def)
    with i2 show ?thesis by (simp add: updateScenarioRates_inv)
  qed
qed

lemma updateNodeStates_inv: "sim_inv s \<Longrightarrow> sim_inv (state_of (updateNodeStates getMonth s))"
  unfolding updateNodeStates_def Let_def
  by (rule forEach_inv) (simp_all add: updateNode_inv multiplier_pos)

lemma sim_inv_cong:
  "nodeState s' = nodeState s \<Longrightarrow> routesData s' = routesData s \<Longrightarrow> timers s' = timers s
     \<Longrightarrow> sim_inv s' = sim_inv s"
  by (simp add: sim_inv_def stock_ok_def routes_nonneg_def arrivals_nonneg_def)

lemma setTimeout_inv:
  "sim_inv s \<Longrightarrow> callback_nonneg cb \<Longrightarrow> sim_inv (snd (setTimeout cb s))"
  by (auto simp: sim_inv_def stock_ok_def routes_nonneg_def arrivals_nonneg_def setTimeout_def)

lemma clearTimeout_inv: "sim_inv s \<Longrightarrow> sim_inv (clearTimeout tid s)"
  by (auto simp: sim_inv_def stock_ok_def routes_nonneg_def arrivals_nonneg_def clearTimeout_def)

lemma shipRoute_inv:
  assumes "sim_inv s" "0 \<le> r_capacity (snd entry)"
  shows "sim_inv (state_of (shipRoute doubleA entry s))"
proof -
  define r where "r = snd entry"
  show ?thesis
  proof (cases "map_of (nodeState s) (r_from r)")
    case None
    with assms show ?thesis by (simp add: shipRoute_def r_def)
  next
    case (Some src)
    then have "(r_from r, src) \<in> set (nodeState s)" by (rule map_of_SomeD)
    with assms(1) have src: "0 \<le> stock src" "stock src \<le> capacity src"
      by (auto simp: sim_inv_def stock_ok_def)
    define size where "size = min (r_capacity r) (stock src)"
    have size: "0 \<le> size" "size \<le> stock src"
      using src assms(2) by (simp_all add: size_def r_def)
    show ?thesis
    proof (cases "stock src > round_double (r_capacity r * double_0_8)
                  \<and> nodesData s (r_from r) \<noteq> None
                  \<and> nodesData s (r_to r) \<noteq> None \<and> co2Data s (currentScenario s) \<noteq> None")
      case False
      then have "state_of (shipRoute doubleA entry s) = s"
        using Some by (auto simp: shipRoute_def r_def Let_def split: option.splits)
      with assms show ?thesis by simp
    next
      case True
      then obtain fd td acc where l: "nodesData s (r_from r) = Some fd"
        "nodesData s (r_to r) = Some td" "co2Data s (currentScenario s) = Some acc"
        by auto
      define s1 where "s1 = s\<lparr>co2Data := (co2Data s)(currentScenario s \<mapsto>
          addTo acc (vehicle r)
            (js_times (js_times (Num size)
                         (calculateDistance doubleA (fst (coords fd)) (snd (coords fd))
                                                    (fst (coords td)) (snd (coords td))))
                      (Num (emission r))))\<rparr>"
      define s2 where "s2 = modifyNode (r_from r) (\<lambda>n. n\<lparr>stock := stock n - size\<rparr>) s1"
      define s3 where "s3 = modifyNode (r_from r)
                              (\<lambda>n. n\<lparr>outbound_rate := outbound_rate n + size\<rparr>) s2"
      have i1: "sim_inv s1"
        using assms(1) sim_inv_cong [of s1 s] by (simp add: s1_def)
      have m1: "map_of (nodeState s1) (r_from r) = Some src"
        using Some by (simp add: s1_def)
      have i2: "sim_inv s2"
        unfolding s2_def using i1
      proof (rule modifyNode_inv)
        fix n assume "map_of (nodeState s1) (r_from r) = Some n"
        with m1 have "n = src" by simp
        with src size show "0 \<le> stock (n\<lparr>stock := stock n - size\<rparr>)
            \<and> stock (n\<lparr>stock := stock n - size\<rparr>) \<le> capacity (n\<lparr>stock := stock n - size\<rparr>)"
          by simp
      qed
      have i3: "sim_inv s3"
        unfolding s3_def using i2 by (rule modifyNode_inv_same) simp
      have "state_of (shipRoute doubleA entry s) = snd (setTimeout (Arrive (r_to r) size) s3)"
        using Some True l
        by (simp add: shipRoute_def r_def [symmetric] Let_def size_def [symmetric]
            s1_def [symmetric] s2_def [symmetric] s3_def [symmetric])
      with i3 size(1) show ?thesis by (simp add: setTimeout_inv)
    qed
  qed
qed

lemma shipRoute_routesData: "routesData (state_of (shipRoute doubleA entry s)) = routesData s"
  by (simp add: shipRoute_def Let_def setTimeout_def split: option.splits)

lemma processShipments_inv:
  assumes "sim_inv s"
  shows "sim_inv (state_of (processShipments doubleA s))"
proof -
  define R where "R = routesData s"
  have "sim_inv (state_of (forEach (shipRoute doubleA) R s))
        \<and> routesData (state_of (forEach (shipRoute doubleA) R s)) = routesData s"
  proof (rule forEach_inv [where P = "\<lambda>s'. sim_inv s' \<and> routesData s' = routesData s"])
    fix x s' assume x: "x \<in> set R" and p: "sim_inv s' \<and> routesData s' = routesData s"
    then have "(fst x, snd x) \<in> set (routesData s')" by (simp add: R_def)
    with p have "0 \<le> r_capacity (snd x)"
      unfolding sim_inv_def routes_nonneg_def by blast
    with p show "sim_inv (state_of (shipRoute doubleA x s'))
                 \<and> routesData (state_of (shipRoute doubleA x s')) = routesData s"
      by (simp add: shipRoute_inv shipRoute_routesData)
  next
    show "sim_inv s \<and> routesData s = routesData s" using assms by simp
  qed
  then show ?thesis by (simp add: processShipments_def R_def)
qed

lemma arrive_inv:
  assumes "sim_inv s" "0 \<le> shipmentSize"
  shows "sim_inv (state_of (arrive toNode shipmentSize s))"
proof (cases "map_of (nodeState s) toNode")
  case None
  with assms show ?thesis by (simp add: arrive_def)
next
  case (Some n0)
  define s1 where "s1 = modifyNode toNode
                          (\<lambda>n. n\<lparr>stock := min (capacity n) (stock n + shipmentSize)\<rparr>) s"
  have "sim_inv s1"
    unfolding s1_def using assms(1)
  proof (rule modifyNode_inv)
    fix n :: node assume "0 \<le> stock n" "stock n \<le> capacity n"
    with assms(2) show "0 \<le> stock (n\<lparr>stock := min (capacity n) (stock n + shipmentSize)\<rparr>)
       \<and> stock (n\<lparr>stock := min (capacity n) (stock n + shipmentSize)\<rparr>)
           \<le> capacity (n\<lparr>stock := min (capacity n) (stock n + shipmentSize)\<rparr>)"
      by simp
  qed
  then have "sim_inv (modifyNode toNode (\<lambda>n. n\<lparr>inbound_rate := inbound_rate n + shipmentSize\<rparr>) s1)"
    by (rule modifyNode_inv_same) simp
  then show ?thesis using Some by (simp add: arrive_def s1_def)
qed

lemma modifyMarker_fields [simp]:
  "nodeState (modifyMarker k f s) = nodeState s"
  "routesData (modifyMarker k f s) = routesData s"
  "timers (modifyMarker k f s) = timers s"
  "nextTimerId (modifyMarker k f s) = nextTimerId s"
  "routeCoordinates (modifyMarker k f s) = routeCoordinates s"
  by (simp_all add: modifyMarker_def)

lemma modifyMarker_inv: "sim_inv (modifyMarker k f s) = sim_inv s"
  by (rule sim_inv_cong) simp_all

lemma onVehicleArrival_inv: "sim_inv s \<Longrightarrow> sim_inv (onVehicleArrival routeId s)"
  by (simp add: onVehicleArrival_def setTimeout_inv modifyMarker_inv split: option.splits)

lemma animate_inv: "sim_inv s \<Longrightarrow> sim_inv (animate routeId s)"
  by (simp add: animate_def Let_def split_beta modifyMarker_inv setTimeout_inv
      onVehicleArrival_inv split: option.splits)

lemma resetVehiclePosition_inv:
  assumes "sim_inv s"
  shows "sim_inv (resetVehiclePosition routeId s)"
proof (cases "movingMarkers s routeId")
  case None
  with assms show ?thesis by (simp add: resetVehiclePosition_def)
next
  case (Some v)
  define s1 where "s1 = (case animationId v of None \<Rightarrow> s
      | Some tid \<Rightarrow> if tid \<noteq> 0 then modifyMarker routeId (\<lambda>v. v\<lparr>animationId := None\<rparr>)
                                       (clearTimeout tid s) else s)"
  define s2 where "s2 = (case routeCoordinates s1 routeId of None \<Rightarrow> s1
      | Some cs \<Rightarrow> (case cs of [] \<Rightarrow> s1
                    | c # _ \<Rightarrow> modifyMarker routeId (\<lambda>v. v\<lparr>markerLatLng := c\<rparr>) s1))"
  have i1: "sim_inv s1"
    using assms by (simp add: s1_def modifyMarker_inv clearTimeout_inv split: option.splits)
  have i2: "sim_inv s2"
    using i1 by (simp add: s2_def modifyMarker_inv split: option.splits list.splits)
  show ?thesis
    using Some i2
    by (simp add: resetVehiclePosition_def Let_def s1_def [symmetric] s2_def [symmetric]
        modifyMarker_inv)
qed

lemma runCallback_inv:
  "sim_inv s \<Longrightarrow> callback_nonneg cb \<Longrightarrow> sim_inv (state_of (runCallback cb s))"
  by (cases cb)
     (simp_all add: animate_inv resetVehiclePosition_inv arrive_inv split: option.splits)

lemma fireTimer_inv:
  assumes "sim_inv s"
  shows "sim_inv (state_of (fireTimer tid s))"
proof (cases "map_of (timers s) tid")
  case None
  with assms show ?thesis by (simp add: fireTimer_def)
next
  case (Some cb)
  then have "(tid, cb) \<in> set (timers s)" by (rule map_of_SomeD)
  with assms have "callback_nonneg cb"
    by (auto simp: sim_inv_def arrivals_nonneg_def)
  with assms Some show ?thesis
    by (simp add: fireTimer_def runCallback_inv clearTimeout_inv)
qed

lemma pushLabels_fields [simp]:
  "nodeState (pushLabels l s) = nodeState s"
  "routesData (pushLabels l s) = routesData s"
  "timers (pushLabels l s) = timers s"
  "co2Data (pushLabels l s) = co2Data s"
  "nodesData (pushLabels l s) = nodesData s"
  "simulationTime (pushLabels l s) = simulationTime s"
  "currentDate (pushLabels l s) = currentDate s"
  "startDate (pushLabels l s) = startDate s"
  "isPlaying (pushLabels l s) = isPlaying s"
  "movingMarkers (pushLabels l s) = movingMarkers s"
  "pendingFrames (pushLabels l s) = pendingFrames s"
  by (simp_all add: pushLabels_def Let_def)

lemma updateCharts_fields:
  "nodeState (state_of (updateCharts s)) = nodeState s"
  "routesData (state_of (updateCharts s)) = routesData s"
  "timers (state_of (updateCharts s)) = timers s"
  "co2Data (state_of (updateCharts s)) = co2Data s"
  "nodesData (state_of (updateCharts s)) = nodesData s"
  "simulationTime (state_of (updateCharts s)) = simulationTime s"
  "currentDate (state_of (updateCharts s)) = currentDate s"
  "startDate (state_of (updateCharts s)) = startDate s"
  "isPlaying (state_of (updateCharts s)) = isPlaying s"
  "movingMarkers (state_of (updateCharts s)) = movingMarkers s"
  "pendingFrames (state_of (updateCharts s)) = pendingFrames s"
  by (simp_all add: updateCharts_def Let_def split: option.splits)

lemma updateCharts_inv: "sim_inv (state_of (updateCharts s)) = sim_inv s"
  by (rule sim_inv_cong) (simp_all add: updateCharts_fields)

lemma stepBody_inv:
  assumes "sim_inv s"
  shows "sim_inv (state_of (stepBody getMonth doubleA s))"
proof -
  define s2 where "s2 = advanceTime s"
  have i2: "sim_inv s2" using assms sim_inv_cong [of s2 s] by (simp add: s2_def advanceTime_def Let_def)
  show ?thesis
  proof (cases "updateNodeStates getMonth s2")
    case (Threw e s3)
    with updateNodeStates_inv [OF i2, of getMonth] show ?thesis
      by (simp add: stepBody_def s2_def)
  next
    case d3: (Done s3)
    with updateNodeStates_inv [OF i2, of getMonth] have i3: "sim_inv s3" by simp
    show ?thesis
    proof (cases "processShipments doubleA s3")
      case (Threw e s4)
      with processShipments_inv [OF i3, where doubleA = doubleA] d3 show ?thesis
        by (simp add: stepBody_def s2_def)
    next
      case d4: (Done s4)
      with processShipments_inv [OF i3, where doubleA = doubleA] have i4: "sim_inv s4" by simp
      define r where "r = (if \<lfloor>simulationTime s4\<rfloor> mod 60 = 0 then updateCharts s4 else Done s4)"
      have i5: "sim_inv (state_of r)" using i4 by (simp add: r_def updateCharts_inv)
      have "sim_inv (state_of (case r of Threw e s6 \<Rightarrow> Threw e s6
                | Done s6 \<Rightarrow> Done (s6\<lparr>pendingFrames := pendingFrames s6 + 1\<rparr>)))"
      proof (cases r)
        case (Done s6)
        with i5 sim_inv_cong [of "s6\<lparr>pendingFrames := pendingFrames s6 + 1\<rparr>" s6] show ?thesis
          by simp
      next
        case (Threw e s6)
        with i5 show ?thesis by simp
      qed
      then show ?thesis
        using d3 d4 by (simp add: stepBody_def s2_def r_def updateDisplay_def)
    qed
  qed
qed

lemma simulationStep_inv:
  assumes "sim_inv s"
  shows "sim_inv (simulationStep getMonth doubleA s)"
proof -
  define s0 where "s0 = (if \<not> theMap s then s\<lparr>theMap := windowMap s\<rparr> else s)"
  have i0: "sim_inv s0" using assms sim_inv_cong [of "s\<lparr>theMap := windowMap s\<rparr>" s] by (simp add: s0_def)
  have "sim_inv (case stepBody getMonth doubleA s0 of Done s' \<Rightarrow> s' | Threw e s' \<Rightarrow> s'\<lparr>isPlaying := False\<rparr>)"
  proof (cases "stepBody getMonth doubleA s0")
    case (Done s')
    with stepBody_inv [OF i0, where getMonth = getMonth and doubleA = doubleA] show ?thesis by simp
  next
    case (Threw e s')
    with stepBody_inv [OF i0, where getMonth = getMonth and doubleA = doubleA] sim_inv_cong [of "s'\<lparr>isPlaying := False\<rparr>" s']
    show ?thesis by simp
  qed
  with assms i0 show ?thesis
    by (simp add: simulationStep_def Let_def s0_def [symmetric])
qed

lemma apply_event_inv: "sim_inv s \<Longrightarrow> sim_inv (apply_event getMonth doubleA e s)"
  by (cases e)
     (simp_all add: updateNodeStates_inv processShipments_inv fireTimer_inv simulationStep_inv)

lemma run_inv: "sim_inv s \<Longrightarrow> sim_inv (run getMonth doubleA es s)"
  by (induction es arbitrary: s) (simp_all add: apply_event_inv)

text \<open>
  Claim C1, amended. When no route has a negative capacity and no pending arrival a
  negative size, stock that starts within 0 and the capacity at every node stays there
  after any sequence of update passes, shipment passes, timers firing (the arrivals of
  shipments among them) and frames, also when a pass throws part-way.
\<close>

theorem stock_within_capacity:
  assumes "stock_ok s" and "routes_nonneg s" and "arrivals_nonneg s"
  shows "stock_ok (run getMonth doubleA es s)"
  using run_inv [where s = s and getMonth = getMonth and doubleA = doubleA and es = es] assms by (simp add: sim_inv_def)

theorem stock_within_capacity_witness:
  "stock_ok (two_node_network 5) \<and> routes_nonneg (two_node_network 5)
   \<and> arrivals_nonneg (two_node_network 5)
   \<and> stock_ok (run (\<lambda>t. 0) hav_a [Frame, UpdateTick, ShipmentPass, TimerFires 1]
                 (two_node_network 5))"
proof -
  have h1: "stock_ok (two_node_network 5)"
    by (simp add: stock_ok_def two_node_network_def ikeaSimulation_def node_A_def node_B_def)
  have h2: "routes_nonneg (two_node_network 5)"
    by (simp add: routes_nonneg_def two_node_network_def ikeaSimulation_def route_A_B_def)
  have h3: "arrivals_nonneg (two_node_network 5)"
    by (simp add: arrivals_nonneg_def two_node_network_def ikeaSimulation_def)
  from stock_within_capacity [OF h1 h2 h3] h1 h2 h3 show ?thesis by blast
qed

lemma two_node_ship:
  "nodeState (state_of (processShipments doubleA (two_node_network c))) =
     (if 10 > round_double (c * double_0_8) then
      [(''A'', \<lparr>stock = 10 - min c 10, capacity = 10, production_rate = 0, sales_rate = 0,
                    inbound_rate = 0, outbound_rate = min c 10\<rparr>),
           (''B'', \<lparr>stock = 0, capacity = 20, production_rate = 0, sales_rate = 0,
                    inbound_rate = 0, outbound_rate = 0\<rparr>)]
      else nodeState (two_node_network c))"
  by (simp add: processShipments_def two_node_network_def ikeaSimulation_def shipRoute_def
      initial_co2Data_def Let_def setTimeout_def modifyNode_def node_A_def node_B_def
      route_A_B_def)

text \<open>
  Claim C1 as stated fails for a route of negative capacity: the test
  \<^verbatim>\<open>stock > capacity * 0.8\<close> passes, the shipment size \<^verbatim>\<open>min(capacity, stock)\<close> is
  negative, and subtracting it raises the source's stock above its capacity. With
  capacity -5 a node at stock 10 of 10 ends at 15.
\<close>

theorem stock_above_capacity_counterexample:
  "stock_ok (two_node_network (- 5))
   \<and> map_option stock (map_of (nodeState (run (\<lambda>t. 0) hav_a [ShipmentPass] (two_node_network (- 5)))) ''A'')
       = Some 15
   \<and> map_option capacity (map_of (nodeState (run (\<lambda>t. 0) hav_a [ShipmentPass] (two_node_network (- 5)))) ''A'')
       = Some 10
   \<and> \<not> stock_ok (run (\<lambda>t. 0) hav_a [ShipmentPass] (two_node_network (- 5)))"
  by (simp add: two_node_ship stock_ok_def round_double_minus threshold_5)
     (simp add: two_node_network_def ikeaSimulation_def node_A_def node_B_def)

subsection \<open>One route of a shipment pass\<close>















subsection \<open>The chart snapshot\<close>

lemma updateCharts_snapshot:
  assumes k: "co2Data s (currentScenario s) = Some acc" "co2Data s ''baseline'' = Some b"
      "co2Data s ''green_rail'' = Some g" "co2Data s ''local_source'' = Some l"
  defines "label \<equiv> of_int (round (simulationTime s / 86400))"
    and "s' \<equiv> state_of (updateCharts s)"
  shows "updateCharts s = Done s'"
    and "label \<notin> set (baseline (scenarioComparison s)) \<Longrightarrow>
           baseline (scenarioComparison s') = baseline (scenarioComparison s) @ [label]
         \<and> green_rail (scenarioComparison s') = green_rail (scenarioComparison s) @ [label]
         \<and> local_source (scenarioComparison s') = local_source (scenarioComparison s) @ [label]
         \<and> scenarioChart_labels (charts s') = scenarioChart_labels (charts s) @ [label]
         \<and> dataset0 (charts s') = dataset0 (charts s) @ [allVehicleSum b]
         \<and> dataset1 (charts s') = dataset1 (charts s) @ [allVehicleSum g]
         \<and> dataset2 (charts s') = dataset2 (charts s) @ [allVehicleSum l]"
    and "label \<in> set (baseline (scenarioComparison s)) \<Longrightarrow>
           scenarioComparison s' = scenarioComparison s
         \<and> scenarioChart_labels (charts s') = scenarioChart_labels (charts s)
         \<and> dataset0 (charts s') = dataset0 (charts s)
         \<and> dataset1 (charts s') = dataset1 (charts s)
         \<and> dataset2 (charts s') = dataset2 (charts s)"
proof -
  define s1 where "s1 = s\<lparr>charts := (charts s)\<lparr>co2Chart_data :=
                                    [acc ''truck'', acc ''rail'', acc ''air'']\<rparr>\<rparr>"
  have l1: "timeLabel s1 = label"
    by (simp add: timeLabel_def s1_def label_def round_def)
  have c1: "scenarioComparison s1 = scenarioComparison s" by (simp add: s1_def)
  define s2 where "s2 = pushLabels label s1"
  have co: "co2Data s2 = co2Data s" by (simp add: s2_def s1_def)
  define s5 where "s5 = s2\<lparr>charts := (charts s2)\<lparr>dataset0 := dataset0 (charts s2) @ [allVehicleSum b],
           dataset1 := dataset1 (charts s2) @ [allVehicleSum g],
           dataset2 := dataset2 (charts s2) @ [allVehicleSum l]\<rparr>\<rparr>"
  have u: "updateCharts s = (if label \<notin> set (baseline (scenarioComparison s)) then Done s5
                            else Done s1)"
    using k l1 c1 co
    by (simp add: updateCharts_def Let_def s1_def [symmetric] s2_def [symmetric] s5_def)
  then show "updateCharts s = Done s'" by (simp add: s'_def)
  {
    assume a: "label \<notin> set (baseline (scenarioComparison s))"
    with u have "s' = s5" by (simp add: s'_def)
    then show "baseline (scenarioComparison s') = baseline (scenarioComparison s) @ [label]
         \<and> green_rail (scenarioComparison s') = green_rail (scenarioComparison s) @ [label]
         \<and> local_source (scenarioComparison s') = local_source (scenarioComparison s) @ [label]
         \<and> scenarioChart_labels (charts s') = scenarioChart_labels (charts s) @ [label]
         \<and> dataset0 (charts s') = dataset0 (charts s) @ [allVehicleSum b]
         \<and> dataset1 (charts s') = dataset1 (charts s) @ [allVehicleSum g]
         \<and> dataset2 (charts s') = dataset2 (charts s) @ [allVehicleSum l]"
      by (simp add: s5_def s2_def pushLabels_def Let_def s1_def)
  }
  {
    assume a: "label \<in> set (baseline (scenarioComparison s))"
    with u have "s' = s1" by (simp add: s'_def)
    then show "scenarioComparison s' = scenarioComparison s
         \<and> scenarioChart_labels (charts s') = scenarioChart_labels (charts s)
         \<and> dataset0 (charts s') = dataset0 (charts s)
         \<and> dataset1 (charts s') = dataset1 (charts s)
         \<and> dataset2 (charts s') = dataset2 (charts s)"
      by (simp add: s1_def)
  }
qed

lemma setTimeout_fields [simp]:
  "simulationTime (snd (setTimeout cb s)) = simulationTime s"
  "scenarioComparison (snd (setTimeout cb s)) = scenarioComparison s"
  "charts (snd (setTimeout cb s)) = charts s"
  "currentScenario (snd (setTimeout cb s)) = currentScenario s"
  "pendingFrames (snd (setTimeout cb s)) = pendingFrames s"
  by (simp_all add: setTimeout_def)

lemma modifyNode_chart_inputs [simp]: "chart_inputs (modifyNode k f s) = chart_inputs s"
  by (simp add: chart_inputs_def modifyNode_def)

lemma setTimeout_chart_inputs [simp]: "chart_inputs (snd (setTimeout cb s)) = chart_inputs s"
  by (simp add: chart_inputs_def setTimeout_def)

lemma co2Data_chart_inputs [simp]: "chart_inputs (s\<lparr>co2Data := x\<rparr>) = chart_inputs s"
  by (simp add: chart_inputs_def)
















subsection \<open>Reset\<close>

lemma modifyNode_other_fields [simp]:
  "scenarioComparison (modifyNode k f s) = scenarioComparison s"
  "charts (modifyNode k f s) = charts s"
  "simulationTime (modifyNode k f s) = simulationTime s"
  "currentDate (modifyNode k f s) = currentDate s"
  "startDate (modifyNode k f s) = startDate s"
  "isPlaying (modifyNode k f s) = isPlaying s"
  "movingMarkers (modifyNode k f s) = movingMarkers s"
  "routeCoordinates (modifyNode k f s) = routeCoordinates s"
  "pendingFrames (modifyNode k f s) = pendingFrames s"
  "theMap (modifyNode k f s) = theMap s"
  "windowMap (modifyNode k f s) = windowMap s"
  "simulationSpeed (modifyNode k f s) = simulationSpeed s"
  by (simp_all add: modifyNode_def)

text \<open>Everything but the node states is as before.\<close>

lemma modifyNode_frame: "modifyNode k f s = s\<lparr>nodeState := nodeState (modifyNode k f s)\<rparr>"
  by (simp add: modifyNode_def)

lemma resetNode_frame:
  "state_of (resetNode k s) = s\<lparr>nodeState := nodeState (state_of (resetNode k s))\<rparr>"
  by (simp add: resetNode_def modifyNode_def Let_def split: option.splits)

lemma forEach_frame:
  assumes "\<And>x s. state_of (f x s) = s\<lparr>nodeState := nodeState (state_of (f x s))\<rparr>"
  shows "state_of (forEach f xs s) = s\<lparr>nodeState := nodeState (state_of (forEach f xs s))\<rparr>"
proof (induction xs arbitrary: s)
  case Nil
  show ?case by simp
next
  case (Cons x xs)
  show ?case
  proof (cases "f x s")
    case (Done s1)
    with assms [of x s] have s1: "s1 = s\<lparr>nodeState := nodeState s1\<rparr>" by simp
    have "state_of (forEach f xs s1) = s1\<lparr>nodeState := nodeState (state_of (forEach f xs s1))\<rparr>"
      by (rule Cons.IH)
    also have "\<dots> = s\<lparr>nodeState := nodeState (state_of (forEach f xs s1))\<rparr>"
      by (subst s1) simp
    finally show ?thesis using Done by simp
  next
    case (Threw e s1)
    with assms [of x s] show ?thesis by simp
  qed
qed

lemma map_of_map_entry_option:
  "map_of (AList.map_entry k f xs) = (map_of xs)(k := map_option f (map_of xs k))"
  by (auto simp: AList.map_of_map_entry split: option.splits)

lemma resetNode_lookup:
  "map_of (nodeState (state_of (resetNode k s))) =
     (case nodesData s k of
        None \<Rightarrow> map_of (nodeState s)
      | Some d \<Rightarrow> (map_of (nodeState s))(k := map_option (reset_fields d) (map_of (nodeState s) k)))"
  by (auto simp: resetNode_def Let_def map_of_map_entry_option reset_fields_def
      split: option.splits)

lemma resetNode_keeps:
  "map_option (\<lambda>n. (capacity n, production_rate n, sales_rate n))
       (map_of (nodeState (state_of (resetNode k s))) nodeId) =
   map_option (\<lambda>n. (capacity n, production_rate n, sales_rate n)) (map_of (nodeState s) nodeId)"
  by (simp add: resetNode_lookup reset_fields_def option.map_comp comp_def split: option.splits)

lemma resetNodes_keep:
  "map_option (\<lambda>n. (capacity n, production_rate n, sales_rate n))
       (map_of (nodeState (state_of (forEach resetNode ks s))) nodeId) =
   map_option (\<lambda>n. (capacity n, production_rate n, sales_rate n)) (map_of (nodeState s) nodeId)"
  by (rule forEach_inv [where P = "\<lambda>s'.
        map_option (\<lambda>n. (capacity n, production_rate n, sales_rate n))
          (map_of (nodeState s') nodeId) =
        map_option (\<lambda>n. (capacity n, production_rate n, sales_rate n))
          (map_of (nodeState s) nodeId)"])
     (simp_all add: resetNode_keeps)

lemma resetNode_keys: "map fst (nodeState (state_of (resetNode k s))) = map fst (nodeState s)"
proof -
  have "map fst (AList.map_entry k f xs) = map fst xs" for f :: "node \<Rightarrow> node" and xs
    by (induction xs) auto
  then show ?thesis
    by (simp add: resetNode_def Let_def modifyNode_def split: option.splits)
qed

lemma resetNodes_keys:
  "map fst (nodeState (state_of (forEach resetNode ks s))) = map fst (nodeState s)"
  by (rule forEach_inv [where P = "\<lambda>s'. map fst (nodeState s') = map fst (nodeState s)"])
     (simp_all add: resetNode_keys)

lemma resetSimulation_steps:
  "resetSimulation s =
     (case forEach resetNode (map fst (nodeState s)) (reset_clock s) of
        Threw e s4 \<Rightarrow> Threw e s4
      | Done s4 \<Rightarrow> updateCharts (reset_rest s4))"
  by (simp add: resetSimulation_def Let_def stopSimulation_def reset_clock_def reset_rest_def
      updateDisplay_def split: outcome.splits)

lemma resetSimulation_nodeState:
  "nodeState (state_of (resetSimulation s)) =
     nodeState (state_of (forEach resetNode (map fst (nodeState s)) (reset_clock s)))"
  by (cases "forEach resetNode (map fst (nodeState s)) (reset_clock s)")
     (simp_all add: resetSimulation_steps updateCharts_fields reset_rest_def)

lemma resetNodes_frame:
  "state_of (forEach resetNode ks s) = s\<lparr>nodeState := nodeState (state_of (forEach resetNode ks s))\<rparr>"
  by (rule forEach_frame) (rule resetNode_frame)

lemma frame_fields:
  assumes "s' = s\<lparr>nodeState := ns\<rparr>"
  shows "nodesData s' = nodesData s"
    and "routesData s' = routesData s"
    and "routeCoordinates s' = routeCoordinates s"
    and "timers s' = timers s"
    and "movingMarkers s' = movingMarkers s"
    and "co2Data s' = co2Data s"
    and "scenarioComparison s' = scenarioComparison s"
    and "charts s' = charts s"
    and "simulationTime s' = simulationTime s"
    and "currentDate s' = currentDate s"
    and "startDate s' = startDate s"
    and "isPlaying s' = isPlaying s"
    and "currentScenario s' = currentScenario s"
  using assms by simp_all

lemmas resetNodes_fields = frame_fields [OF resetNodes_frame]

lemma pushLabels_other_fields [simp]:
  "routeCoordinates (pushLabels l s) = routeCoordinates s"
  "currentScenario (pushLabels l s) = currentScenario s"
  "nextTimerId (pushLabels l s) = nextTimerId s"
  by (simp_all add: pushLabels_def Let_def)

lemma updateCharts_other_fields:
  "routeCoordinates (state_of (updateCharts s)) = routeCoordinates s"
  "currentScenario (state_of (updateCharts s)) = currentScenario s"
  "nextTimerId (state_of (updateCharts s)) = nextTimerId s"
  by (simp_all add: updateCharts_def Let_def split: option.splits)

lemma resetSimulation_state:
  "state_of (resetSimulation s) =
     (case forEach resetNode (map fst (nodeState s)) (reset_clock s) of
        Threw e s4 \<Rightarrow> s4
      | Done s4 \<Rightarrow> state_of (updateCharts (reset_rest s4)))"
  by (simp add: resetSimulation_steps split: outcome.splits)

lemma resetSimulation_static:
  "nodesData (state_of (resetSimulation s)) = nodesData s"
  "routesData (state_of (resetSimulation s)) = routesData s"
  "routeCoordinates (state_of (resetSimulation s)) = routeCoordinates s"
  "timers (state_of (resetSimulation s)) = timers s"
  "movingMarkers (state_of (resetSimulation s)) = movingMarkers s"
proof -
  define r where "r = forEach resetNode (map fst (nodeState s)) (reset_clock s)"
  note f = resetNodes_fields [of "map fst (nodeState s)" "reset_clock s", folded r_def]
  note rs = resetSimulation_state [of s, folded r_def]
  show "nodesData (state_of (resetSimulation s)) = nodesData s"
    using f(1) by (cases r) (simp_all add: rs updateCharts_fields updateCharts_other_fields reset_rest_def
        reset_clock_def)
  show "routesData (state_of (resetSimulation s)) = routesData s"
    using f(2) by (cases r) (simp_all add: rs updateCharts_fields updateCharts_other_fields reset_rest_def
        reset_clock_def)
  show "routeCoordinates (state_of (resetSimulation s)) = routeCoordinates s"
    using f(3) by (cases r) (simp_all add: rs updateCharts_fields updateCharts_other_fields reset_rest_def
        reset_clock_def)
  show "timers (state_of (resetSimulation s)) = timers s"
    using f(4) by (cases r) (simp_all add: rs updateCharts_fields updateCharts_other_fields reset_rest_def
        reset_clock_def)
  show "movingMarkers (state_of (resetSimulation s)) = movingMarkers s"
    using f(5) by (cases r) (simp_all add: rs updateCharts_fields updateCharts_other_fields reset_rest_def
        reset_clock_def)
qed

text \<open>
  Claim C9. A reset, whether it returns or throws, leaves every node's production rate,
  sales rate and capacity as they were, keeps the keys of the node states, and does not
  change the node definitions, the route definitions or the route coordinates.
\<close>

theorem reset_keeps_rates_and_definitions:
  "map_option production_rate (map_of (nodeState (state_of (resetSimulation s))) nodeId)
     = map_option production_rate (map_of (nodeState s) nodeId)
   \<and> map_option sales_rate (map_of (nodeState (state_of (resetSimulation s))) nodeId)
     = map_option sales_rate (map_of (nodeState s) nodeId)
   \<and> map_option capacity (map_of (nodeState (state_of (resetSimulation s))) nodeId)
     = map_option capacity (map_of (nodeState s) nodeId)
   \<and> map fst (nodeState (state_of (resetSimulation s))) = map fst (nodeState s)
   \<and> nodesData (state_of (resetSimulation s)) = nodesData s
   \<and> routesData (state_of (resetSimulation s)) = routesData s
   \<and> routeCoordinates (state_of (resetSimulation s)) = routeCoordinates s"
proof -
  let ?s' = "state_of (resetSimulation s)"
  have "map_option (\<lambda>n. (capacity n, production_rate n, sales_rate n)) (map_of (nodeState ?s') nodeId)
      = map_option (\<lambda>n. (capacity n, production_rate n, sales_rate n))
          (map_of (nodeState (reset_clock s)) nodeId)"
    by (simp only: resetSimulation_nodeState resetNodes_keep)
  then have k: "map_option (\<lambda>n. (capacity n, production_rate n, sales_rate n))
                  (map_of (nodeState ?s') nodeId)
      = map_option (\<lambda>n. (capacity n, production_rate n, sales_rate n)) (map_of (nodeState s) nodeId)"
    by (simp add: reset_clock_def)
  have keys: "map fst (nodeState ?s') = map fst (nodeState s)"
    by (simp add: resetSimulation_nodeState resetNodes_keys reset_clock_def)
  from k have "map_option production_rate (map_of (nodeState ?s') nodeId)
     = map_option production_rate (map_of (nodeState s) nodeId)"
    "map_option sales_rate (map_of (nodeState ?s') nodeId)
     = map_option sales_rate (map_of (nodeState s) nodeId)"
    "map_option capacity (map_of (nodeState ?s') nodeId)
     = map_option capacity (map_of (nodeState s) nodeId)"
    by (cases "map_of (nodeState ?s') nodeId"; cases "map_of (nodeState s) nodeId"; simp)+
  with keys show ?thesis by (simp add: resetSimulation_static)
qed

lemma resetNode_nodesData: "nodesData (state_of (resetNode k s)) = nodesData s"
  by (simp add: resetNode_def Let_def split: option.splits)

lemma resetNode_Done:
  assumes "nodesData s k \<noteq> None" "map_of (nodeState s) k \<noteq> None"
  shows "\<exists>s'. resetNode k s = Done s'"
  using assms by (auto simp: resetNode_def Let_def)

lemma resetNode_dom:
  "(map_of (nodeState (state_of (resetNode k s))) j = None) = (map_of (nodeState s) j = None)"
  by (simp add: resetNode_lookup split: option.splits)

lemma resetNode_is_reset_same:
  assumes "nodesData s k \<noteq> None"
  shows "node_is_reset (state_of (resetNode k s)) k"
  using assms
  by (auto simp: node_is_reset_def resetNode_lookup resetNode_nodesData reset_fields_def
      split: option.splits)

lemma resetNode_is_reset_other:
  assumes "node_is_reset s j"
  shows "node_is_reset (state_of (resetNode k s)) j"
  using assms
  by (auto simp: node_is_reset_def resetNode_lookup resetNode_nodesData reset_fields_def
      split: option.splits)

lemma resetNodes_is_reset_kept:
  "node_is_reset s j \<Longrightarrow> node_is_reset (state_of (forEach resetNode ks s)) j"
  by (rule forEach_inv [where P = "\<lambda>s'. node_is_reset s' j"])
     (simp_all add: resetNode_is_reset_other)

lemma resetNodes_all:
  assumes "\<forall>k \<in> set ks. nodesData s k \<noteq> None \<and> map_of (nodeState s) k \<noteq> None"
  shows "(\<exists>s'. forEach resetNode ks s = Done s')
         \<and> (\<forall>k \<in> set ks. node_is_reset (state_of (forEach resetNode ks s)) k)"
  using assms
proof (induction ks arbitrary: s)
  case Nil
  show ?case by simp
next
  case (Cons x xs)
  from Cons.prems have "nodesData s x \<noteq> None" "map_of (nodeState s) x \<noteq> None" by simp_all
  then obtain s1 where s1: "resetNode x s = Done s1" using resetNode_Done by blast
  then have so: "s1 = state_of (resetNode x s)" by simp
  have x1: "node_is_reset s1 x"
    unfolding so using \<open>nodesData s x \<noteq> None\<close> by (rule resetNode_is_reset_same)
  have "\<forall>k \<in> set xs. nodesData s1 k \<noteq> None \<and> map_of (nodeState s1) k \<noteq> None"
    using Cons.prems by (simp add: so resetNode_nodesData resetNode_dom)
  from Cons.IH [OF this] have ih: "\<exists>s'. forEach resetNode xs s1 = Done s'"
    "\<forall>k \<in> set xs. node_is_reset (state_of (forEach resetNode xs s1)) k" by simp_all
  from x1 have "node_is_reset (state_of (forEach resetNode xs s1)) x"
    by (rule resetNodes_is_reset_kept)
  with ih s1 show ?case by simp
qed

lemma is_reset_outside:
  "map_of (nodeState s) j = None \<Longrightarrow> node_is_reset s j"
  by (simp add: node_is_reset_def)

lemma node_is_reset_cong:
  "nodeState s' = nodeState s \<Longrightarrow> nodesData s' = nodesData s
     \<Longrightarrow> node_is_reset s' j = node_is_reset s j"
  by (simp add: node_is_reset_def split: option.splits)

lemma updateCharts_after_reset:
  assumes t: "simulationTime s = 0"
    and c: "scenarioComparison s = empty_comparison"
    and k: "co2Data s (currentScenario s) \<noteq> None" "co2Data s ''baseline'' \<noteq> None"
      "co2Data s ''green_rail'' \<noteq> None" "co2Data s ''local_source'' \<noteq> None"
  shows "updateCharts s = Done (state_of (updateCharts s))
         \<and> scenarioComparison (state_of (updateCharts s)) = zero_comparison"
proof -
  from k obtain acc b g l where k': "co2Data s (currentScenario s) = Some acc"
    "co2Data s ''baseline'' = Some b" "co2Data s ''green_rail'' = Some g"
    "co2Data s ''local_source'' = Some l" by auto
  define s1 where "s1 = s\<lparr>charts := (charts s)\<lparr>co2Chart_data :=
                                    [acc ''truck'', acc ''rail'', acc ''air'']\<rparr>\<rparr>"
  have l0: "timeLabel s1 = 0" using t by (simp add: timeLabel_def s1_def)
  have c1: "scenarioComparison s1 = empty_comparison" using c by (simp add: s1_def)
  define s2 where "s2 = pushLabels 0 s1"
  have c2: "scenarioComparison s2 = zero_comparison"
    using c1 by (simp add: s2_def pushLabels_def Let_def empty_comparison_def zero_comparison_def)
  have co: "co2Data s2 = co2Data s" by (simp add: s2_def s1_def)
  have "updateCharts s = Done (s2\<lparr>charts := (charts s2)\<lparr>dataset0 := dataset0 (charts s2) @ [allVehicleSum b],
           dataset1 := dataset1 (charts s2) @ [allVehicleSum g],
           dataset2 := dataset2 (charts s2) @ [allVehicleSum l]\<rparr>\<rparr>)"
    using k' l0 c1 co
    by (simp add: updateCharts_def Let_def s1_def [symmetric] s2_def [symmetric]
        empty_comparison_def)
  with c2 show ?thesis by simp
qed

lemma reset_result:
  assumes cfg: "\<forall>nodeId \<in> set (map fst (nodeState s)). nodesData s nodeId \<noteq> None"
    and sc: "co2Data s (currentScenario s) \<noteq> None" "co2Data s ''baseline'' \<noteq> None"
      "co2Data s ''green_rail'' \<noteq> None" "co2Data s ''local_source'' \<noteq> None"
  defines "s' \<equiv> state_of (resetSimulation s)"
  shows "resetSimulation s = Done s'"
    and "node_is_reset s' nodeId"
    and "co2Data s' = (\<lambda>scenario. map_option (\<lambda>_. zero_acc) (co2Data s scenario))"
    and "scenarioComparison s' = zero_comparison"
    and "simulationTime s' = 0"
    and "currentDate s' = startDate s"
    and "startDate s' = startDate s"
    and "\<not> isPlaying s'"
proof -
  define ks where "ks = map fst (nodeState s)"
  define r where "r = forEach resetNode ks (reset_clock s)"
  have pre: "\<forall>k \<in> set ks. nodesData (reset_clock s) k \<noteq> None
                         \<and> map_of (nodeState (reset_clock s)) k \<noteq> None"
    using cfg by (auto simp: ks_def reset_clock_def map_of_eq_None_iff)
  from resetNodes_all [OF pre] obtain s4 where s4: "r = Done s4"
    and all: "\<forall>k \<in> set ks. node_is_reset s4 k"
    by (auto simp: r_def)
  have s4': "s4 = state_of (forEach resetNode ks (reset_clock s))"
    using s4 by (simp add: r_def)
  note f = resetNodes_fields [of ks "reset_clock s", folded s4']
  have keys: "map fst (nodeState s4) = ks"
    by (simp add: s4' resetNodes_keys) (simp add: ks_def reset_clock_def)
  have n4: "node_is_reset s4 j" for j
  proof (cases "j \<in> set ks")
    case True
    with all show ?thesis by simp
  next
    case False
    with keys have "j \<notin> fst ` set (nodeState s4)" by (metis set_map)
    then have "map_of (nodeState s4) j = None" by (simp add: map_of_eq_None_iff)
    then show ?thesis by (rule is_reset_outside)
  qed
  define s5 where "s5 = reset_rest s4"
  have rs: "resetSimulation s = updateCharts s5"
    using s4 by (simp add: resetSimulation_steps r_def ks_def s5_def)
  have t5: "simulationTime s5 = 0" "scenarioComparison s5 = empty_comparison"
    "co2Data s5 = (\<lambda>scenario. map_option (\<lambda>_. zero_acc) (co2Data s scenario))"
    "currentScenario s5 = currentScenario s" "currentDate s5 = startDate s"
    "startDate s5 = startDate s" "\<not> isPlaying s5" "nodeState s5 = nodeState s4"
    "nodesData s5 = nodesData s4"
    by (simp_all add: s5_def reset_rest_def f reset_clock_def)
  have k5: "co2Data s5 (currentScenario s5) \<noteq> None" "co2Data s5 ''baseline'' \<noteq> None"
    "co2Data s5 ''green_rail'' \<noteq> None" "co2Data s5 ''local_source'' \<noteq> None"
    using sc by (simp_all add: t5)
  note u = updateCharts_after_reset [OF t5(1) t5(2) k5]
  have s': "s' = state_of (updateCharts s5)" by (simp add: s'_def rs)
  from u show "resetSimulation s = Done s'" by (simp add: rs s')
  from u show "scenarioComparison s' = zero_comparison" by (simp add: s')
  show "co2Data s' = (\<lambda>scenario. map_option (\<lambda>_. zero_acc) (co2Data s scenario))"
    by (simp add: s' updateCharts_fields t5)
  show "simulationTime s' = 0" by (simp add: s' updateCharts_fields t5)
  show "currentDate s' = startDate s" by (simp add: s' updateCharts_fields t5)
  show "startDate s' = startDate s" by (simp add: s' updateCharts_fields t5)
  show "\<not> isPlaying s'" by (simp add: s' updateCharts_fields t5)
  have "node_is_reset s' nodeId = node_is_reset s4 nodeId"
    by (rule node_is_reset_cong) (simp_all add: s' updateCharts_fields t5)
  with n4 show "node_is_reset s' nodeId" by simp
qed

lemma allVehicleSum_zero: "allVehicleSum zero_acc = Num 0"
  by (simp add: allVehicleSum_def zero_acc_def)

lemma reset_charts:
  assumes cfg: "\<forall>nodeId \<in> set (map fst (nodeState s)). nodesData s nodeId \<noteq> None"
    and sc: "co2Data s (currentScenario s) \<noteq> None" "co2Data s ''baseline'' \<noteq> None"
      "co2Data s ''green_rail'' \<noteq> None" "co2Data s ''local_source'' \<noteq> None"
  defines "s' \<equiv> state_of (resetSimulation s)"
  shows "scenarioChart_labels (charts s') = scenarioChart_labels (charts s) @ [0]
       \<and> dataset0 (charts s') = dataset0 (charts s) @ [Num 0]
       \<and> dataset1 (charts s') = dataset1 (charts s) @ [Num 0]
       \<and> dataset2 (charts s') = dataset2 (charts s) @ [Num 0]"
proof -
  define ks where "ks = map fst (nodeState s)"
  have pre: "\<forall>k \<in> set ks. nodesData (reset_clock s) k \<noteq> None
                         \<and> map_of (nodeState (reset_clock s)) k \<noteq> None"
    using cfg by (auto simp: ks_def reset_clock_def map_of_eq_None_iff)
  from resetNodes_all [OF pre] obtain s4 where s4: "forEach resetNode ks (reset_clock s) = Done s4"
    by auto
  have s4': "s4 = state_of (forEach resetNode ks (reset_clock s))"
    using s4 by simp
  note f = resetNodes_fields [of ks "reset_clock s", folded s4']
  define s5 where "s5 = reset_rest s4"
  have rs: "resetSimulation s = updateCharts s5"
    using s4 by (simp add: resetSimulation_steps ks_def s5_def)
  have t5: "simulationTime s5 = 0" "scenarioComparison s5 = empty_comparison"
    "co2Data s5 = (\<lambda>scenario. map_option (\<lambda>_. zero_acc) (co2Data s scenario))"
    "currentScenario s5 = currentScenario s" "charts s5 = charts s"
    by (simp_all add: s5_def reset_rest_def f reset_clock_def)
  have k5: "co2Data s5 (currentScenario s5) = Some zero_acc"
    "co2Data s5 ''baseline'' = Some zero_acc" "co2Data s5 ''green_rail'' = Some zero_acc"
    "co2Data s5 ''local_source'' = Some zero_acc"
    using sc by (auto simp: t5)
  have l: "real_of_int (round (simulationTime s5 / 86400))
             \<notin> set (baseline (scenarioComparison s5))"
    by (simp add: t5 empty_comparison_def)
  have s': "s' = state_of (updateCharts s5)" by (simp add: s'_def rs)
  from updateCharts_snapshot(2) [OF k5 l] show ?thesis
    by (simp add: s' t5 allVehicleSum_zero)
qed

text \<open>
  Claim C6, amended. In a state in which every node has a definition and the accumulators
  of the current scenario and of the three named scenarios exist, a reset returns and
  leaves every node's stock at its configured initial stock, every node's inbound and
  outbound rate at 0, every scenario's accumulator at all zeros, the simulation time at 0,
  the current date at the start date and the simulation paused. The comparison series are
  emptied and then each receives the day label 0 from the chart update that the reset
  runs last; the same chart update appends the label 0 and the sums 0 to the labels and
  the datasets of the line chart, which the reset does not empty.
\<close>

theorem reset_restores:
  assumes "\<forall>nodeId \<in> set (map fst (nodeState s)). nodesData s nodeId \<noteq> None"
    and "co2Data s (currentScenario s) \<noteq> None" and "co2Data s ''baseline'' \<noteq> None"
    and "co2Data s ''green_rail'' \<noteq> None" and "co2Data s ''local_source'' \<noteq> None"
  defines "s' \<equiv> state_of (resetSimulation s)"
  shows "resetSimulation s = Done s'
       \<and> (\<forall>nodeId. node_is_reset s' nodeId)
       \<and> (\<forall>scenario. co2Data s' scenario = map_option (\<lambda>_. zero_acc) (co2Data s scenario))
       \<and> baseline (scenarioComparison s') = [0]
       \<and> green_rail (scenarioComparison s') = [0]
       \<and> local_source (scenarioComparison s') = [0]
       \<and> scenarioChart_labels (charts s') = scenarioChart_labels (charts s) @ [0]
       \<and> dataset0 (charts s') = dataset0 (charts s) @ [Num 0]
       \<and> dataset1 (charts s') = dataset1 (charts s) @ [Num 0]
       \<and> dataset2 (charts s') = dataset2 (charts s) @ [Num 0]
       \<and> simulationTime s' = 0
       \<and> currentDate s' = startDate s'
       \<and> startDate s' = startDate s
       \<and> \<not> isPlaying s'"
  using reset_result [OF assms(1-5)] reset_charts [OF assms(1-5)]
  by (simp add: s'_def zero_comparison_def)

lemma two_node_resettable:
  "\<forall>nodeId \<in> set (map fst (nodeState (two_node_network c))).
      nodesData (two_node_network c) nodeId \<noteq> None"
  "co2Data (two_node_network c) (currentScenario (two_node_network c)) \<noteq> None"
  "co2Data (two_node_network c) ''baseline'' \<noteq> None"
  "co2Data (two_node_network c) ''green_rail'' \<noteq> None"
  "co2Data (two_node_network c) ''local_source'' \<noteq> None"
  by (simp_all add: two_node_network_def ikeaSimulation_def initial_co2Data_def)

theorem reset_restores_witness:
  "map fst (nodeState (two_node_network 5)) = [''A'', ''B'']
   \<and> nodesData (two_node_network 5) ''A'' \<noteq> None
   \<and> nodesData (two_node_network 5) ''B'' \<noteq> None
   \<and> co2Data (two_node_network 5) (currentScenario (two_node_network 5)) \<noteq> None
   \<and> resetSimulation (two_node_network 5) = Done (state_of (resetSimulation (two_node_network 5)))
   \<and> node_is_reset (state_of (resetSimulation (two_node_network 5))) ''A''
   \<and> co2Data (state_of (resetSimulation (two_node_network 5))) ''green_rail'' = Some zero_acc
   \<and> baseline (scenarioComparison (state_of (resetSimulation (two_node_network 5)))) = [0]
   \<and> simulationTime (state_of (resetSimulation (two_node_network 5))) = 0"
proof -
  note t = reset_restores [OF two_node_resettable, of 5]
  have "co2Data (two_node_network 5) ''green_rail'' = Some zero_acc"
    by (simp add: two_node_network_def ikeaSimulation_def initial_co2Data_def)
  with t have "co2Data (state_of (resetSimulation (two_node_network 5))) ''green_rail''
                 = Some zero_acc" by simp
  moreover have "map fst (nodeState (two_node_network 5)) = [''A'', ''B'']"
    "nodesData (two_node_network 5) ''A'' \<noteq> None"
    "nodesData (two_node_network 5) ''B'' \<noteq> None"
    by (simp_all add: two_node_network_def)
  ultimately show ?thesis using t two_node_resettable(2) [of 5] by simp
qed

text \<open>
  Claim C6 as stated fails in its part on the comparison series: after a reset of the
  two-node network each entry of \<^verbatim>\<open>scenarioComparison\<close> holds the label 0 and is not
  empty, and neither are the labels and the datasets of the line chart.
\<close>

theorem reset_series_not_empty_counterexample:
  "baseline (scenarioComparison (state_of (resetSimulation (two_node_network 5)))) = [0]
   \<and> green_rail (scenarioComparison (state_of (resetSimulation (two_node_network 5)))) = [0]
   \<and> local_source (scenarioComparison (state_of (resetSimulation (two_node_network 5)))) = [0]
   \<and> baseline (scenarioComparison (state_of (resetSimulation (two_node_network 5)))) \<noteq> []
   \<and> scenarioChart_labels (charts (state_of (resetSimulation (two_node_network 5)))) = [0]
   \<and> dataset0 (charts (state_of (resetSimulation (two_node_network 5)))) = [Num 0]"
proof -
  have "charts (two_node_network 5) = \<lparr>co2Chart_data = [Some (Num 0), Some (Num 0), Some (Num 0)],
                scenarioChart_labels = [], dataset0 = [], dataset1 = [], dataset2 = []\<rparr>"
    by (simp add: two_node_network_def ikeaSimulation_def)
  with reset_result(4) [OF two_node_resettable, of 5] reset_charts [OF two_node_resettable, of 5]
  show ?thesis by (simp add: zero_comparison_def)
qed

subsection \<open>Timers after a stop or a reset\<close>

lemma animate_step:
  assumes "movingMarkers s r = Some v" "isMoving v"
    "currentPosition v + 1 < length (routeCoords v)"
  shows "movingMarkers (animate r s) r =
           Some (v\<lparr>currentPosition := currentPosition v + 1,
                   markerLatLng := routeCoords v ! (currentPosition v + 1),
                   animationId := Some (nextTimerId s)\<rparr>)"
    and "timers (animate r s) = timers s @ [(nextTimerId s, Animate r)]"
    and "nextTimerId (animate r s) = nextTimerId s + 1"
  using assms by (simp_all add: animate_def modifyMarker_def setTimeout_def Let_def)

lemma animate_arrives:
  assumes "movingMarkers s r = Some v" "isMoving v"
    "length (routeCoords v) \<le> currentPosition v + 1"
  shows "movingMarkers (animate r s) r =
           Some (v\<lparr>currentPosition := currentPosition v + 1, isMoving := False\<rparr>)"
    and "timers (animate r s) = timers s @ [(nextTimerId s, ResetVehicle r)]"
    and "nextTimerId (animate r s) = nextTimerId s + 1"
  using assms
  by (simp_all add: animate_def modifyMarker_def setTimeout_def onVehicleArrival_def Let_def)

lemma startVehicleMovement_starts:
  assumes "movingMarkers s r = Some v" "\<not> isMoving v" "1 < length (routeCoords v)"
  shows "movingMarkers (startVehicleMovement r s) r =
           Some (v\<lparr>isMoving := True, currentPosition := 1,
                   markerLatLng := routeCoords v ! 1,
                   animationId := Some (nextTimerId s)\<rparr>)"
    and "timers (startVehicleMovement r s) = timers s @ [(nextTimerId s, Animate r)]"
    and "nextTimerId (startVehicleMovement r s) = nextTimerId s + 1"
proof -
  define s1 where "s1 = modifyMarker r (\<lambda>v. v\<lparr>isMoving := True, currentPosition := 0\<rparr>) s"
  have st: "startVehicleMovement r s = animate r s1"
    using assms by (simp add: startVehicleMovement_def s1_def)
  have m1: "movingMarkers s1 r = Some (v\<lparr>isMoving := True, currentPosition := 0\<rparr>)"
    using assms(1) by (simp add: s1_def modifyMarker_def)
  have f1: "timers s1 = timers s" "nextTimerId s1 = nextTimerId s"
    by (simp_all add: s1_def)
  have p: "isMoving (v\<lparr>isMoving := True, currentPosition := 0\<rparr>)"
    "currentPosition (v\<lparr>isMoving := True, currentPosition := 0\<rparr>) + 1
       < length (routeCoords (v\<lparr>isMoving := True, currentPosition := 0\<rparr>))"
    using assms(3) by simp_all
  note a = animate_step [OF m1 p, unfolded f1]
  from a(1) show "movingMarkers (startVehicleMovement r s) r =
           Some (v\<lparr>isMoving := True, currentPosition := 1,
                   markerLatLng := routeCoords v ! 1,
                   animationId := Some (nextTimerId s)\<rparr>)"
    by (simp add: st)
  from a(2) show "timers (startVehicleMovement r s) = timers s @ [(nextTimerId s, Animate r)]"
    by (simp add: st)
  from a(3) show "nextTimerId (startVehicleMovement r s) = nextTimerId s + 1"
    by (simp add: st)
qed

lemma fireTimer_animate:
  assumes "map_of (timers s) tid = Some (Animate r)"
  shows "state_of (fireTimer tid s) = animate r (clearTimeout tid s)"
  using assms by (simp add: fireTimer_def)

lemma clearTimeout_fields [simp]:
  "movingMarkers (clearTimeout tid s) = movingMarkers s"
  "nextTimerId (clearTimeout tid s) = nextTimerId s"
  "timers (clearTimeout tid s) = filter (\<lambda>p. fst p \<noteq> tid) (timers s)"
  by (simp_all add: clearTimeout_def)

lemma vehicle_network_fields:
  "movingMarkers vehicle_network ''A_B'' =
     Some \<lparr>vehicleType = ''truck'', routeCoords = [(0, 0), (0, 45), (0, 90)],
           duration = 1000, distance = 10, isMoving = False, currentPosition = 0,
           animationId = None, markerLatLng = (0, 0)\<rparr>"
  "timers vehicle_network = []" "nextTimerId vehicle_network = 10"
  by (simp_all add: vehicle_network_def two_node_network_def ikeaSimulation_def)

lemma moving_state_eval:
  "timers moving_state = [(10, Animate ''A_B'')]"
  "movingMarkers moving_state ''A_B'' =
     Some \<lparr>vehicleType = ''truck'', routeCoords = [(0, 0), (0, 45), (0, 90)],
           duration = 1000, distance = 10, isMoving = True, currentPosition = 1,
           animationId = Some 10, markerLatLng = (0, 45)\<rparr>"
  "nextTimerId moving_state = 11"
  using startVehicleMovement_starts [OF vehicle_network_fields(1)]
  by (simp_all add: moving_state_def vehicle_network_fields)

lemma clearTimeout_routeCoordinates [simp]:
  "routeCoordinates (clearTimeout tid s) = routeCoordinates s"
  by (simp add: clearTimeout_def)

lemma resetVehiclePosition_result:
  assumes v: "movingMarkers s r = Some v" and rc: "routeCoordinates s r = Some (c # cs)"
  shows "map_option (\<lambda>v. (isMoving v, currentPosition v, markerLatLng v))
           (movingMarkers (resetVehiclePosition r s) r) = Some (False, 0, c)"
proof -
  define s1 where "s1 = (case animationId v of None \<Rightarrow> s
      | Some tid \<Rightarrow> if tid \<noteq> 0 then modifyMarker r (\<lambda>v. v\<lparr>animationId := None\<rparr>)
                                       (clearTimeout tid s) else s)"
  have r1: "routeCoordinates s1 r = Some (c # cs)"
    using rc by (simp add: s1_def split: option.splits)
  have "\<exists>v1. movingMarkers s1 r = Some v1"
    using v by (simp add: s1_def modifyMarker_def split: option.splits)
  then obtain v1 where v1: "movingMarkers s1 r = Some v1" ..
  have "resetVehiclePosition r s =
          modifyMarker r (\<lambda>v. v\<lparr>isMoving := False, currentPosition := 0\<rparr>)
            (modifyMarker r (\<lambda>v. v\<lparr>markerLatLng := c\<rparr>) s1)"
    using v r1 by (simp add: resetVehiclePosition_def Let_def s1_def [symmetric])
  with v1 show ?thesis by (simp add: modifyMarker_def)
qed

lemma fireTimer_resetVehicle:
  assumes "map_of (timers s) tid = Some (ResetVehicle r)" "movingMarkers s r = Some v"
  shows "state_of (fireTimer tid s) = resetVehiclePosition r (clearTimeout tid s)"
  using assms by (simp add: fireTimer_def)

lemma second_step_eval:
  assumes "timers s = [(10, Animate ''A_B'')]"
    and "movingMarkers s ''A_B'' = movingMarkers moving_state ''A_B''"
  shows "map_option (\<lambda>v. (isMoving v, currentPosition v, markerLatLng v))
           (movingMarkers (state_of (fireTimer 10 s)) ''A_B'') = Some (True, 2, (0, 90))"
    and "timers (state_of (fireTimer 10 s)) = [(nextTimerId s, Animate ''A_B'')]"
    and "map_option routeCoords (movingMarkers (state_of (fireTimer 10 s)) ''A_B'')
         = Some [(0, 0), (0, 45), (0, 90)]"
    and "nextTimerId (state_of (fireTimer 10 s)) = nextTimerId s + 1"
proof -
  have f: "state_of (fireTimer 10 s) = animate ''A_B'' (clearTimeout 10 s)"
    by (rule fireTimer_animate) (simp add: assms(1))
  have m: "movingMarkers (clearTimeout 10 s) ''A_B'' =
     Some \<lparr>vehicleType = ''truck'', routeCoords = [(0, 0), (0, 45), (0, 90)],
           duration = 1000, distance = 10, isMoving = True, currentPosition = 1,
           animationId = Some 10, markerLatLng = (0, 45)\<rparr>"
    by (simp add: assms(2) moving_state_eval)
  have "movingMarkers (animate ''A_B'' (clearTimeout 10 s)) ''A_B'' =
     Some \<lparr>vehicleType = ''truck'', routeCoords = [(0, 0), (0, 45), (0, 90)],
           duration = 1000, distance = 10, isMoving = True, currentPosition = 2,
           animationId = Some (nextTimerId s), markerLatLng = (0, 90)\<rparr>"
    using animate_step(1) [OF m] by simp
  then show "map_option (\<lambda>v. (isMoving v, currentPosition v, markerLatLng v))
           (movingMarkers (state_of (fireTimer 10 s)) ''A_B'') = Some (True, 2, (0, 90))"
    and "map_option routeCoords (movingMarkers (state_of (fireTimer 10 s)) ''A_B'')
         = Some [(0, 0), (0, 45), (0, 90)]"
    by (simp_all add: f)
  show "timers (state_of (fireTimer 10 s)) = [(nextTimerId s, Animate ''A_B'')]"
    using animate_step(2) [OF m] by (simp add: f assms(1))
  show "nextTimerId (state_of (fireTimer 10 s)) = nextTimerId s + 1"
    using animate_step(3) [OF m] by (simp add: f)
qed

lemma arrived_state_eval:
  "timers arrived_state = [(12, ResetVehicle ''A_B'')]"
  "map_option (\<lambda>v. (isMoving v, currentPosition v, markerLatLng v))
     (movingMarkers arrived_state ''A_B'') = Some (False, 3, (0, 90))"
proof -
  define a where "a = state_of (fireTimer 10 moving_state)"
  note s = second_step_eval [OF moving_state_eval(1) refl, folded a_def,
      unfolded moving_state_eval(3)]
  from s(1) s(3) obtain v where v: "movingMarkers a ''A_B'' = Some v" "isMoving v"
    "currentPosition v = 2" "markerLatLng v = (0, 90)"
    "routeCoords v = [(0, 0), (0, 45), (0, 90)]"
    by auto
  have f: "arrived_state = animate ''A_B'' (clearTimeout 11 a)"
    unfolding arrived_state_def a_def [symmetric]
    by (rule fireTimer_animate) (simp add: s(2))
  have m: "movingMarkers (clearTimeout 11 a) ''A_B'' = Some v" by (simp add: v(1))
  have le: "length (routeCoords v) \<le> currentPosition v + 1" by (simp add: v)
  note b = animate_arrives [OF m v(2) le]
  from b(2) show "timers arrived_state = [(12, ResetVehicle ''A_B'')]"
    by (simp add: f s(2) s(4))
  from b(1) show "map_option (\<lambda>v. (isMoving v, currentPosition v, markerLatLng v))
     (movingMarkers arrived_state ''A_B'') = Some (False, 3, (0, 90))"
    by (simp add: f v)
qed

lemma vehicle_routeCoordinates:
  "routeCoordinates vehicle_network ''A_B'' = Some [(0, 0), (0, 45), (0, 90)]"
  by (simp add: vehicle_network_def)

lemma animate_routeCoordinates [simp]: "routeCoordinates (animate r s) = routeCoordinates s"
  by (simp add: animate_def onVehicleArrival_def setTimeout_def Let_def split_beta
      split: option.splits)

lemma state_routeCoordinates:
  "routeCoordinates moving_state ''A_B'' = Some [(0, 0), (0, 45), (0, 90)]"
  "routeCoordinates arrived_state ''A_B'' = Some [(0, 0), (0, 45), (0, 90)]"
proof -
  have "routeCoordinates (startVehicleMovement r s) = routeCoordinates s" for r s
    by (simp add: startVehicleMovement_def split: option.splits)
  then show m: "routeCoordinates moving_state ''A_B'' = Some [(0, 0), (0, 45), (0, 90)]"
    by (simp add: moving_state_def vehicle_routeCoordinates)
  define a where "a = state_of (fireTimer 10 moving_state)"
  have fa: "a = animate ''A_B'' (clearTimeout 10 moving_state)"
    unfolding a_def by (rule fireTimer_animate) (simp add: moving_state_eval)
  have "timers a = [(11, Animate ''A_B'')]"
    using second_step_eval(2) [OF moving_state_eval(1) refl]
    by (simp add: a_def moving_state_eval)
  then have "arrived_state = animate ''A_B'' (clearTimeout 11 a)"
    unfolding arrived_state_def a_def [symmetric]
    by (intro fireTimer_animate) simp
  then have "routeCoordinates arrived_state
               = routeCoordinates (animate ''A_B'' (clearTimeout 11 a))"
    by (rule arg_cong)
  also have "\<dots> = routeCoordinates a" by simp
  also have "\<dots> = routeCoordinates moving_state" by (simp add: fa)
  finally show "routeCoordinates arrived_state ''A_B'' = Some [(0, 0), (0, 45), (0, 90)]"
    by (simp add: m)
qed

text \<open>
  Claim C8, amended. Stopping and resetting cancel no timer: \<open>stopSimulation\<close> changes
  nothing, a pause through the play button changes only \<open>isPlaying\<close>, and a reset
  leaves the pending timers and the moving markers as they are, so every callback that
  was pending before is pending after.
\<close>

theorem stop_and_reset_keep_timers:
  "stopSimulation s = s
   \<and> timers (state_of (resetSimulation s)) = timers s
   \<and> movingMarkers (state_of (resetSimulation s)) = movingMarkers s
   \<and> (isPlaying s \<longrightarrow> toggleSimulation getMonth doubleA s = s\<lparr>isPlaying := False\<rparr>)"
  by (simp add: stopSimulation_def toggleSimulation_def resetSimulation_static)

theorem stop_and_reset_keep_timers_witness:
  "isPlaying (moving_state\<lparr>isPlaying := True\<rparr>)
   \<and> toggleSimulation (\<lambda>t. 0) hav_a (moving_state\<lparr>isPlaying := True\<rparr>)
       = moving_state\<lparr>isPlaying := False\<rparr>
   \<and> timers (toggleSimulation (\<lambda>t. 0) hav_a (moving_state\<lparr>isPlaying := True\<rparr>))
       = [(10, Animate ''A_B'')]"
  using stop_and_reset_keep_timers [of "moving_state\<lparr>isPlaying := True\<rparr>" "\<lambda>t. 0"]
  by (simp add: moving_state_eval)

text \<open>
  Claim C8 as stated fails. A vehicle has started and the timer of its next step is
  pending: after a stop and after a reset the timer is still pending, and when it fires
  the vehicle moves on from waypoint 1 to waypoint 2. A vehicle has arrived and the timer
  of its reset is pending: after a reset of the simulation that timer is still pending,
  and when it fires it puts the marker back to the first waypoint.
\<close>

theorem timers_survive_counterexample:
  "map_of (timers moving_state) 10 = Some (Animate ''A_B'')
   \<and> map_of (timers (stopSimulation moving_state)) 10 = Some (Animate ''A_B'')
   \<and> map_of (timers (state_of (resetSimulation moving_state))) 10 = Some (Animate ''A_B'')
   \<and> map_option (\<lambda>v. (isMoving v, currentPosition v, markerLatLng v))
        (movingMarkers (state_of (resetSimulation moving_state)) ''A_B'')
       = Some (True, 1, (0, 45))
   \<and> map_option (\<lambda>v. (isMoving v, currentPosition v, markerLatLng v))
        (movingMarkers (state_of (fireTimer 10 (state_of (resetSimulation moving_state)))) ''A_B'')
       = Some (True, 2, (0, 90))
   \<and> map_of (timers (state_of (resetSimulation arrived_state))) 12 = Some (ResetVehicle ''A_B'')
   \<and> map_option (\<lambda>v. (isMoving v, currentPosition v, markerLatLng v))
        (movingMarkers (state_of (resetSimulation arrived_state)) ''A_B'')
       = Some (False, 3, (0, 90))
   \<and> map_option (\<lambda>v. (isMoving v, currentPosition v, markerLatLng v))
        (movingMarkers (state_of (fireTimer 12 (state_of (resetSimulation arrived_state)))) ''A_B'')
       = Some (False, 0, (0, 0))"
proof -
  let ?r = "state_of (resetSimulation moving_state)"
  let ?q = "state_of (resetSimulation arrived_state)"
  have r: "timers ?r = [(10, Animate ''A_B'')]"
    "movingMarkers ?r ''A_B'' = movingMarkers moving_state ''A_B''"
    by (simp_all add: resetSimulation_static moving_state_eval)
  have q: "timers ?q = [(12, ResetVehicle ''A_B'')]"
    "movingMarkers ?q = movingMarkers arrived_state"
    "routeCoordinates ?q ''A_B'' = Some [(0, 0), (0, 45), (0, 90)]"
    by (simp_all add: resetSimulation_static arrived_state_eval state_routeCoordinates)
  from arrived_state_eval(2) obtain v where v: "movingMarkers arrived_state ''A_B'' = Some v"
    by auto
  have "state_of (fireTimer 12 ?q) = resetVehiclePosition ''A_B'' (clearTimeout 12 ?q)"
    by (rule fireTimer_resetVehicle [where v = v]) (simp_all add: q v)
  moreover have "map_option (\<lambda>v. (isMoving v, currentPosition v, markerLatLng v))
           (movingMarkers (resetVehiclePosition ''A_B'' (clearTimeout 12 ?q)) ''A_B'')
         = Some (False, 0, (0, 0))"
    by (rule resetVehiclePosition_result [where v = v]) (simp_all add: q v)
  ultimately have fq: "map_option (\<lambda>v. (isMoving v, currentPosition v, markerLatLng v))
        (movingMarkers (state_of (fireTimer 12 ?q)) ''A_B'') = Some (False, 0, (0, 0))"
    by simp
  from second_step_eval(1) [OF r] fq show ?thesis
    by (simp add: r q stopSimulation_def moving_state_eval arrived_state_eval)
qed

end
